theory Spec2Isabelle
  imports Main "HOL-Library.Word"
begin

section \<open>JavaScript strings and byte arrays\<close>

text \<open>
  A JavaScript string is a sequence of UTF-16 code units; a \<^verbatim>\<open>Uint8Array\<close> or
  \<^verbatim>\<open>Buffer\<close> is a sequence of bytes. ASCII literals of the source are written with
  \<open>js\<close>.
\<close>

type_synonym jstring = "16 word list"

type_synonym bytes = "8 word list"

definition js :: "string \<Rightarrow> jstring" where
  "js s = map of_char s"

text \<open>
  The code units that \<^verbatim>\<open>String.prototype.trim\<close> strips and that the regular
  expression class \<^verbatim>\<open>\s\<close> matches: ECMAScript WhiteSpace and LineTerminator.
\<close>

definition isWhiteSpace :: "16 word \<Rightarrow> bool" where
  "isWhiteSpace c =
     (c = 0x0009 \<or> c = 0x000A \<or> c = 0x000B \<or> c = 0x000C \<or> c = 0x000D \<or> c = 0x0020 \<or>
      c = 0x00A0 \<or> c = 0x1680 \<or> (0x2000 \<le> c \<and> c \<le> 0x200A) \<or> c = 0x2028 \<or>
      c = 0x2029 \<or> c = 0x202F \<or> c = 0x205F \<or> c = 0x3000 \<or> c = 0xFEFF)"

definition isAsciiUpper :: "16 word \<Rightarrow> bool" where
  "isAsciiUpper c = (0x41 \<le> c \<and> c \<le> 0x5A)"

text \<open>\<^verbatim>\<open>s.trim()\<close>: leading and trailing white space removed.\<close>

definition trim :: "jstring \<Rightarrow> jstring" where
  "trim s = rev (dropWhile isWhiteSpace (rev (dropWhile isWhiteSpace s)))"

text \<open>
  \<^verbatim>\<open>s.split(/\s+/g)\<close>: the pieces of \<open>s\<close> between the maximal runs of white space.
  A string without white space (the empty string too) is returned as the only piece;
  white space at the very start or end leaves an empty piece there.
\<close>

function split_whitespace :: "jstring \<Rightarrow> jstring list" where
  "split_whitespace s =
     (case dropWhile (\<lambda>c. \<not> isWhiteSpace c) s of
        [] \<Rightarrow> [s]
      | _ # r \<Rightarrow> takeWhile (\<lambda>c. \<not> isWhiteSpace c) s
                 # split_whitespace (dropWhile isWhiteSpace r))"
  by pat_completeness auto
termination
proof (relation "measure length")
  show "wf (measure length)" by simp
next
  fix s :: jstring and x r
  assume d: "dropWhile (\<lambda>c. \<not> isWhiteSpace c) s = x # r"
  have "length (dropWhile isWhiteSpace r) \<le> length r"
    by (rule length_dropWhile_le)
  moreover have "length (x # r) \<le> length s"
    unfolding d [symmetric] by (rule length_dropWhile_le)
  ultimately show "(dropWhile isWhiteSpace r, s) \<in> measure length"
    by simp
qed

declare split_whitespace.simps [simp del]

text \<open>\<^verbatim>\<open>parts.join(sep)\<close>.\<close>

fun join :: "jstring \<Rightarrow> jstring list \<Rightarrow> jstring" where
  "join sep [] = []"
| "join sep [w] = w"
| "join sep (w # v # vs) = w @ sep @ join sep (v # vs)"

text \<open>A non-empty list of non-empty pieces without white space.\<close>

definition normal_words :: "jstring list \<Rightarrow> bool" where
  "normal_words ws =
     (ws \<noteq> [] \<and> list_all (\<lambda>w. w \<noteq> [] \<and> list_all (\<lambda>c. \<not> isWhiteSpace c) w) ws)"

text \<open>
  The words of a string: its maximal runs of code units that are not white space, in
  the order in which they occur. White space is skipped; a word starts at a code unit
  that is not white space and runs up to the next white space or the end.
\<close>

function words_of :: "jstring \<Rightarrow> jstring list" where
  "words_of [] = []"
| "words_of (c # cs) =
     (if isWhiteSpace c then words_of cs
      else (c # takeWhile (\<lambda>c. \<not> isWhiteSpace c) cs)
             # words_of (dropWhile (\<lambda>c. \<not> isWhiteSpace c) cs))"
  by pat_completeness auto
termination
proof (relation "measure length")
  show "wf (measure length)" by simp
next
  fix c :: "16 word" and cs :: jstring
  show "(cs, c # cs) \<in> measure length" by simp
next
  fix c :: "16 word" and cs :: jstring
  have "length (dropWhile (\<lambda>c. \<not> isWhiteSpace c) cs) \<le> length cs"
    by (rule length_dropWhile_le)
  then show "(dropWhile (\<lambda>c. \<not> isWhiteSpace c) cs, c # cs) \<in> measure length"
    by simp
qed

section \<open>The libraries the wallet module requires\<close>

text \<open>
  \<^verbatim>\<open>wallet.js\<close> requires \<^verbatim>\<open>bip39\<close>, \<^verbatim>\<open>ed25519-hd-key\<close>, \<^verbatim>\<open>tweetnacl\<close> and
  \<^verbatim>\<open>@solana/web3.js\<close>. Their functions are parameters of the model, collected in
  the record \<open>libs\<close>; a function that may throw returns \<open>Inl\<close> of the exception.
  A JavaScript \<^verbatim>\<open>null\<close> or \<^verbatim>\<open>undefined\<close> argument is \<open>None\<close>.
\<close>

datatype error = TypeError string | SyntaxError string | Error string

text \<open>The object returned by \<^verbatim>\<open>derivePath\<close>.\<close>

record keys =
  key :: bytes
  chainCode :: bytes

text \<open>The object returned by \<^verbatim>\<open>nacl.sign.keyPair.fromSeed\<close>.\<close>

record nacl_keypair =
  nacl_publicKey :: bytes
  nacl_secretKey :: bytes

text \<open>A \<^verbatim>\<open>solana.Keypair\<close>.\<close>

record keypair =
  publicKey :: bytes
  secretKey :: bytes

text \<open>
  \<^verbatim>\<open>bip39.generateMnemonic(strength)\<close> draws its entropy from a random source; the
  source is the argument \<open>rng\<close>, which maps a number of bytes to the bytes drawn.
\<close>

record libs =
  bip39_generateMnemonic :: "nat \<Rightarrow> (nat \<Rightarrow> bytes) \<Rightarrow> error + jstring"
  bip39_validateMnemonic :: "jstring \<Rightarrow> bool"
  bip39_mnemonicToSeedSync :: "jstring \<Rightarrow> jstring option \<Rightarrow> bytes"
  derivePath :: "jstring option \<Rightarrow> jstring option \<Rightarrow> error + keys"
  nacl_sign_keyPair_fromSeed :: "bytes \<Rightarrow> error + nacl_keypair"
  solana_Keypair_fromSecretKey :: "bytes \<Rightarrow> error + keypair"
  toBase58 :: "bytes \<Rightarrow> jstring"

text \<open>\<^verbatim>\<open>Buffer.from(bs).toString("hex")\<close>: two lower-case hexadecimal digits a byte.\<close>

definition hexDigit :: "nat \<Rightarrow> 16 word" where
  "hexDigit n = (if n < 10 then 0x30 + of_nat n else 0x57 + of_nat n)"

definition toHex :: "bytes \<Rightarrow> jstring" where
  "toHex bs = concat (map (\<lambda>b. [hexDigit (unat b div 16), hexDigit (unat b mod 16)]) bs)"

text \<open>\<^verbatim>\<open>Uint8Array.prototype.toString\<close>: the bytes in decimal, joined by commas.\<close>

fun decimal :: "nat \<Rightarrow> jstring" where
  "decimal n = (if n < 10 then [0x30 + of_nat n]
                else decimal (n div 10) @ [0x30 + of_nat (n mod 10)])"

declare decimal.simps [simp del]

definition Uint8Array_toString :: "bytes \<Rightarrow> jstring" where
  "Uint8Array_toString bs = join (js '','') (map (\<lambda>b. decimal (unat b)) bs)"

text \<open>
  \<^verbatim>\<open>a || b\<close> on strings that may be \<^verbatim>\<open>null\<close>: \<open>a\<close> when it is truthy (neither
  \<^verbatim>\<open>null\<close> nor the empty string), \<open>b\<close> otherwise.
\<close>

definition js_or :: "jstring option \<Rightarrow> jstring option \<Rightarrow> jstring option" where
  "js_or a b = (case a of None \<Rightarrow> b | Some s \<Rightarrow> if s = [] then b else Some s)"

section \<open>The class \<^verbatim>\<open>Wallet\<close> (wallet.js)\<close>

text \<open>
  The fields \<^verbatim>\<open>_derivedPath\<close>, \<^verbatim>\<open>_mnemonic\<close>, \<^verbatim>\<open>_seed\<close>, \<^verbatim>\<open>_seedHex\<close>,
  \<^verbatim>\<open>_keypair\<close> and \<^verbatim>\<open>_derivationPaths\<close> of an instance. The table of derivation
  paths is an object literal: its property names with their values, in source order.
\<close>

record wallet =
  w_derivedPath :: "jstring option"
  w_mnemonic :: "jstring option"
  w_seed :: "bytes option"
  w_seedHex :: "jstring option"
  w_keypair :: "keypair option"
  w_derivationPaths :: "(string \<times> jstring) list"

text \<open>
  The three path literals of the constructor. The last two end in an apostrophe,
  which is appended as \<open>CHR 0x27\<close>.
\<close>

definition path_deprecated :: jstring where
  "path_deprecated = js ''m/501'/0'/0/0''"

definition path_bip44 :: jstring where
  "path_bip44 = js (''m/44'/501'/0'' @ [CHR 0x27])"

definition path_bip44Change :: jstring where
  "path_bip44Change = js (''m/44'/501'/0'/0'' @ [CHR 0x27])"

definition Wallet_constructor :: wallet where
  "Wallet_constructor =
     \<lparr>w_derivedPath = None, w_mnemonic = None, w_seed = None, w_seedHex = None,
      w_keypair = None,
      w_derivationPaths =
        [(''deprecated'', path_deprecated),
         (''bip44'', path_bip44),
         (''bip44Change'', path_bip44Change)]\<rparr>"

text \<open>
  A method of the class updates the fields of \<^verbatim>\<open>this\<close> one assignment after the
  other and returns \<^verbatim>\<open>this\<close>. When a library call throws, the assignments made so
  far stay: both outcomes carry the instance as the call leaves it.
\<close>

datatype outcome = Return wallet | Throw error wallet

fun state_of :: "outcome \<Rightarrow> wallet" where
  "state_of (Return w) = w"
| "state_of (Throw e w) = w"

definition normalizeMnemonic :: "jstring \<Rightarrow> jstring" where
  "normalizeMnemonic mnemonic = join (js '' '') (split_whitespace (trim mnemonic))"

definition generateMnemonic :: "libs \<Rightarrow> (nat \<Rightarrow> bytes) \<Rightarrow> error + jstring" where
  "generateMnemonic L rng = bip39_generateMnemonic L 256 rng"

definition mnemonicToSeedHex :: "libs \<Rightarrow> jstring \<Rightarrow> jstring option \<Rightarrow> jstring option" where
  "mnemonicToSeedHex L mnemonic pass =
     (if \<not> bip39_validateMnemonic L mnemonic then None
      else Some (toHex (bip39_mnemonicToSeedSync L mnemonic pass)))"

text \<open>
  The expression
  \<^verbatim>\<open>solana.Keypair.fromSecretKey(nacl.sign.keyPair.fromSeed(seed).secretKey)\<close>,
  which \<^verbatim>\<open>create\<close>, \<^verbatim>\<open>restoreFromMnemonic\<close> and \<^verbatim>\<open>restoreFromSeed\<close> evaluate.
\<close>

definition keypairFromSeed :: "libs \<Rightarrow> bytes \<Rightarrow> error + keypair" where
  "keypairFromSeed L seed =
     (case nacl_sign_keyPair_fromSeed L seed of
        Inl e \<Rightarrow> Inl e
      | Inr kp \<Rightarrow> solana_Keypair_fromSecretKey L (nacl_secretKey kp))"

definition Wallet_create ::
  "libs \<Rightarrow> (nat \<Rightarrow> bytes) \<Rightarrow> jstring option \<Rightarrow> jstring option \<Rightarrow> wallet \<Rightarrow> outcome" where
  "Wallet_create L rng pass derivedPath this =
     (let this1 = this\<lparr>w_derivedPath :=
                    js_or derivedPath (map_of (w_derivationPaths this) ''bip44Change'')\<rparr>
      in case generateMnemonic L rng of
        Inl e \<Rightarrow> Throw e this1
      | Inr mnemonic \<Rightarrow>
         (let this2 = this1\<lparr>w_mnemonic := Some mnemonic\<rparr>;
              this3 = this2\<lparr>w_seedHex := mnemonicToSeedHex L mnemonic pass\<rparr>
          in case derivePath L (w_derivedPath this3) (w_seedHex this3) of
            Inl e \<Rightarrow> Throw e this3
          | Inr ks \<Rightarrow>
             (let this4 = this3\<lparr>w_seed := Some (key ks)\<rparr>
              in case keypairFromSeed L (key ks) of
                Inl e \<Rightarrow> Throw e this4
              | Inr kp \<Rightarrow> Return (this4\<lparr>w_keypair := Some kp\<rparr>))))"

definition Wallet_restoreFromMnemonic ::
  "libs \<Rightarrow> jstring \<Rightarrow> jstring option \<Rightarrow> jstring option \<Rightarrow> wallet \<Rightarrow> outcome" where
  "Wallet_restoreFromMnemonic L mnemonic pass derivedPath this =
     (let this1 = this\<lparr>w_derivedPath :=
                    js_or derivedPath (map_of (w_derivationPaths this) ''bip44Change'')\<rparr>;
          this2 = this1\<lparr>w_mnemonic := Some (normalizeMnemonic mnemonic)\<rparr>;
          this3 = this2\<lparr>w_seedHex := mnemonicToSeedHex L (normalizeMnemonic mnemonic) pass\<rparr>
      in case derivePath L (w_derivedPath this3) (w_seedHex this3) of
        Inl e \<Rightarrow> Throw e this3
      | Inr ks \<Rightarrow>
         (let this4 = this3\<lparr>w_seed := Some (key ks)\<rparr>
          in case keypairFromSeed L (key ks) of
            Inl e \<Rightarrow> Throw e this4
          | Inr kp \<Rightarrow> Return (this4\<lparr>w_keypair := Some kp\<rparr>)))"

definition Wallet_restoreFromSeed :: "libs \<Rightarrow> bytes \<Rightarrow> wallet \<Rightarrow> outcome" where
  "Wallet_restoreFromSeed L seed this =
     (let this1 = this\<lparr>w_derivedPath := None, w_mnemonic := None, w_seed := Some seed,
                       w_seedHex := Some (toHex seed)\<rparr>
      in case keypairFromSeed L seed of
        Inl e \<Rightarrow> Throw e this1
      | Inr kp \<Rightarrow> Return (this1\<lparr>w_keypair := Some kp\<rparr>))"

definition Wallet_restoreFromPrivateKey :: "libs \<Rightarrow> bytes \<Rightarrow> wallet \<Rightarrow> outcome" where
  "Wallet_restoreFromPrivateKey L privateKey this =
     (let this1 = this\<lparr>w_derivedPath := None, w_mnemonic := None, w_seed := None,
                       w_seedHex := None\<rparr>
      in case solana_Keypair_fromSecretKey L privateKey of
        Inl e \<Rightarrow> Throw e this1
      | Inr kp \<Rightarrow> Return (this1\<lparr>w_keypair := Some kp\<rparr>))"

subsection \<open>The getters\<close>

definition Wallet_mnemonic :: "wallet \<Rightarrow> jstring option" where
  "Wallet_mnemonic this = w_mnemonic this"

definition Wallet_seed :: "wallet \<Rightarrow> bytes option" where
  "Wallet_seed this = w_seed this"

definition Wallet_publicKey :: "wallet \<Rightarrow> bytes option" where
  "Wallet_publicKey this =
     (case w_keypair this of None \<Rightarrow> None | Some kp \<Rightarrow> Some (publicKey kp))"

definition Wallet_privateKey :: "wallet \<Rightarrow> bytes option" where
  "Wallet_privateKey this =
     (case w_keypair this of None \<Rightarrow> None | Some kp \<Rightarrow> Some (secretKey kp))"

definition Wallet_publicKeyString :: "libs \<Rightarrow> wallet \<Rightarrow> jstring option" where
  "Wallet_publicKeyString L this =
     (case w_keypair this of None \<Rightarrow> None | Some kp \<Rightarrow> Some (toBase58 L (publicKey kp)))"

definition Wallet_privateKeyString :: "wallet \<Rightarrow> jstring option" where
  "Wallet_privateKeyString this =
     (case w_keypair this of
        None \<Rightarrow> None
      | Some kp \<Rightarrow> Some (js ''['' @ Uint8Array_toString (secretKey kp) @ js '']''))"

definition Wallet_keypair :: "wallet \<Rightarrow> keypair option" where
  "Wallet_keypair this = w_keypair this"

definition Wallet_derivationPaths :: "wallet \<Rightarrow> (string \<times> jstring) list" where
  "Wallet_derivationPaths this = w_derivationPaths this"

record wallet_json =
  json_mnemonic :: "jstring option"
  json_publicKey :: "jstring option"
  json_bn :: "bytes option"
  json_privateKey :: "jstring option"

definition Wallet_json :: "libs \<Rightarrow> wallet \<Rightarrow> wallet_json" where
  "Wallet_json L this =
     \<lparr>json_mnemonic = w_mnemonic this,
      json_publicKey = Wallet_publicKeyString L this,
      json_bn = Wallet_publicKey this,
      json_privateKey = Wallet_privateKeyString this\<rparr>"

section \<open>The class \<^verbatim>\<open>WalletFactory\<close> (wallet.js)\<close>

text \<open>Every method of the factory works on a new \<^verbatim>\<open>Wallet\<close>.\<close>

definition WalletFactory_derivationPaths :: "(string \<times> jstring) list" where
  "WalletFactory_derivationPaths =
     [(''deprecated'', path_deprecated),
      (''bip44'', path_bip44),
      (''bip44Change'', path_bip44Change)]"

definition WalletFactory_create ::
  "libs \<Rightarrow> (nat \<Rightarrow> bytes) \<Rightarrow> jstring option \<Rightarrow> jstring option \<Rightarrow> outcome" where
  "WalletFactory_create L rng pass derivedPath =
     Wallet_create L rng pass derivedPath Wallet_constructor"

definition WalletFactory_restoreFromMnemonic ::
  "libs \<Rightarrow> jstring \<Rightarrow> jstring option \<Rightarrow> jstring option \<Rightarrow> outcome" where
  "WalletFactory_restoreFromMnemonic L mnemonic pass derivedPath =
     Wallet_restoreFromMnemonic L mnemonic pass derivedPath Wallet_constructor"

definition WalletFactory_restoreFromSeed :: "libs \<Rightarrow> bytes \<Rightarrow> outcome" where
  "WalletFactory_restoreFromSeed L seed = Wallet_restoreFromSeed L seed Wallet_constructor"

definition WalletFactory_restoreFromPrivateKey :: "libs \<Rightarrow> bytes \<Rightarrow> outcome" where
  "WalletFactory_restoreFromPrivateKey L privateKey =
     Wallet_restoreFromPrivateKey L privateKey Wallet_constructor"

section \<open>Calls on an instance\<close>

text \<open>
  Everything a holder of a \<^verbatim>\<open>Wallet\<close> instance can invoke on it: the four
  construction methods, the getters and the three helper methods. \<open>invoke\<close> gives the
  instance as the call leaves it, whether the call returns or throws.
\<close>

datatype call =
    Call_create "nat \<Rightarrow> bytes" "jstring option" "jstring option"
  | Call_restoreFromMnemonic jstring "jstring option" "jstring option"
  | Call_restoreFromSeed bytes
  | Call_restoreFromPrivateKey bytes
  | Get_json
  | Get_mnemonic
  | Get_seed
  | Get_publicKey
  | Get_privateKey
  | Get_publicKeyString
  | Get_privateKeyString
  | Get_keypair
  | Get_derivationPaths
  | Call_normalizeMnemonic jstring
  | Call_generateMnemonic "nat \<Rightarrow> bytes"
  | Call_mnemonicToSeedHex jstring "jstring option"

fun invoke :: "libs \<Rightarrow> call \<Rightarrow> wallet \<Rightarrow> wallet" where
  "invoke L (Call_create rng pass derivedPath) this =
     state_of (Wallet_create L rng pass derivedPath this)"
| "invoke L (Call_restoreFromMnemonic mnemonic pass derivedPath) this =
     state_of (Wallet_restoreFromMnemonic L mnemonic pass derivedPath this)"
| "invoke L (Call_restoreFromSeed seed) this = state_of (Wallet_restoreFromSeed L seed this)"
| "invoke L (Call_restoreFromPrivateKey privateKey) this =
     state_of (Wallet_restoreFromPrivateKey L privateKey this)"
| "invoke L c this = this"

fun is_construction :: "call \<Rightarrow> bool" where
  "is_construction (Call_create rng pass derivedPath) = True"
| "is_construction (Call_restoreFromMnemonic mnemonic pass derivedPath) = True"
| "is_construction (Call_restoreFromSeed seed) = True"
| "is_construction (Call_restoreFromPrivateKey privateKey) = True"
| "is_construction c = False"

section \<open>The standard mnemonic encoding\<close>

text \<open>
  Modelled from the spec: \<^verbatim>\<open>bip39.generateMnemonic\<close> belongs to a required package
  and is not among the source files. The spec has \<^verbatim>\<open>create\<close> generate 256 bits of
  entropy and encode them as a mnemonic phrase in the standard wordlist-based
  encoding. In that encoding the entropy bits, followed by one checksum bit for every
  32 bits of entropy, are cut into groups of 11 bits; each group is the index of a word
  in the word list, and the words are joined by single spaces. The word list and the
  hash that gives the checksum are parameters.
\<close>

definition bytesToBinary :: "bytes \<Rightarrow> bool list" where
  "bytesToBinary bs = concat (map (\<lambda>b. map (bit b) (rev [0..<8])) bs)"

definition binaryToByte :: "bool list \<Rightarrow> nat" where
  "binaryToByte bits = foldl (\<lambda>n b. 2 * n + (if b then 1 else 0)) 0 bits"

function chunks :: "nat \<Rightarrow> 'a list \<Rightarrow> 'a list list" where
  "chunks n xs = (if n = 0 \<or> xs = [] then [] else take n xs # chunks n (drop n xs))"
  by pat_completeness auto
termination
  by (relation "measure (\<lambda>(n, xs). length xs)") auto

declare chunks.simps [simp del]

definition deriveChecksumBits :: "(bytes \<Rightarrow> bytes) \<Rightarrow> bytes \<Rightarrow> bool list" where
  "deriveChecksumBits sha256 entropy =
     take (length entropy * 8 div 32) (bytesToBinary (sha256 entropy))"

definition wordAt :: "jstring list \<Rightarrow> nat \<Rightarrow> jstring" where
  "wordAt wordlist i = (if i < length wordlist then wordlist ! i else [])"

definition entropyToMnemonic :: "jstring list \<Rightarrow> (bytes \<Rightarrow> bytes) \<Rightarrow> bytes \<Rightarrow> jstring" where
  "entropyToMnemonic wordlist sha256 entropy =
     join (js '' '')
       (map (\<lambda>binary. wordAt wordlist (binaryToByte binary))
          (chunks 11 (bytesToBinary entropy @ deriveChecksumBits sha256 entropy)))"

definition standard_generateMnemonic ::
  "jstring list \<Rightarrow> (bytes \<Rightarrow> bytes) \<Rightarrow> nat \<Rightarrow> (nat \<Rightarrow> bytes) \<Rightarrow> error + jstring" where
  "standard_generateMnemonic wordlist sha256 strength rng =
     Inr (entropyToMnemonic wordlist sha256 (rng (strength div 8)))"

text \<open>A word list of the standard encoding: 2048 non-empty words without white space.\<close>

definition wordlist_ok :: "jstring list \<Rightarrow> bool" where
  "wordlist_ok wordlist =
     (length wordlist = 2048 \<and>
      list_all (\<lambda>w. w \<noteq> [] \<and> list_all (\<lambda>c. \<not> isWhiteSpace c) w) wordlist)"

section \<open>The modules and their exports\<close>

text \<open>
  A value a module can export. An object is the list of its own properties followed
  by those of each object on its prototype chain; reading a property takes the first
  of them that has it, and gives \<^verbatim>\<open>undefined\<close> when none has. A getter is listed with
  the value it returns.
\<close>

datatype jsval =
    Undefined
  | JString jstring
  | JClass string
  | JFunction string
  | JObject "(string \<times> jsval) list list"

type_synonym jsobject = "(string \<times> jsval) list list"

fun get_property :: "jsobject \<Rightarrow> string \<Rightarrow> jsval" where
  "get_property [] name = Undefined"
| "get_property (props # chain) name =
     (case map_of props name of Some v \<Rightarrow> v | None \<Rightarrow> get_property chain name)"

definition Object_prototype :: "(string \<times> jsval) list" where
  "Object_prototype =
     map (\<lambda>name. (name, JFunction name))
       [''constructor'', ''hasOwnProperty'', ''isPrototypeOf'', ''propertyIsEnumerable'',
        ''toLocaleString'', ''toString'', ''valueOf'', ''__defineGetter__'',
        ''__defineSetter__'', ''__lookupGetter__'', ''__lookupSetter__'', ''__proto__'']"

definition object_literal :: "(string \<times> jsval) list \<Rightarrow> jsobject" where
  "object_literal props = [props, Object_prototype]"

definition derivationPaths_object :: jsval where
  "derivationPaths_object =
     JObject (object_literal (map (\<lambda>(name, path). (name, JString path))
                                WalletFactory_derivationPaths))"

text \<open>\<^verbatim>\<open>new WalletFactory()\<close>: the field the constructor sets, then the prototype.\<close>

definition new_WalletFactory :: jsobject where
  "new_WalletFactory =
     [[(''_derivationPaths'', derivationPaths_object)],
      [(''constructor'', JClass ''WalletFactory''),
       (''derivationPaths'', derivationPaths_object),
       (''create'', JFunction ''create''),
       (''restoreFromMnemonic'', JFunction ''restoreFromMnemonic''),
       (''restoreFromSeed'', JFunction ''restoreFromSeed''),
       (''restoreFromPrivateKey'', JFunction ''restoreFromPrivateKey'')],
      Object_prototype]"

text \<open>\<^verbatim>\<open>new SplFactory()\<close> of spl.js: no field of its own.\<close>

definition new_SplFactory :: jsobject where
  "new_SplFactory =
     [[],
      [(''constructor'', JClass ''SplFactory''),
       (''clusters'',
          JObject (object_literal
            [(''dev'', JString (js ''devnet'')), (''test'', JString (js ''testnet'')),
             (''main'', JString (js ''mainnet-beta''))])),
       (''create'', JFunction ''create'')],
      Object_prototype]"

text \<open>
  How a file of the package is loaded.
  \<^item> \<open>Node_require\<close>: by \<^verbatim>\<open>require\<close>, as the file is written. The file is compiled as
    a CommonJS module, in which an \<^verbatim>\<open>export\<close> declaration is a syntax error: a file
    that has one throws before any of its statements runs.
  \<^item> \<open>Compiled\<close>: with every \<^verbatim>\<open>export\<close> declaration compiled beforehand to an
    assignment of the declared name on the exports object, so that the file runs.
\<close>

datatype loader = Node_require | Compiled

definition load :: "loader \<Rightarrow> bool \<Rightarrow> error + jsobject \<Rightarrow> error + jsobject" where
  "load ld has_export_declaration run =
     (if ld = Node_require \<and> has_export_declaration
      then Inl (SyntaxError ''Unexpected token export'')
      else run)"

text \<open>
  A module starts with an empty exports object. The declaration
  \<^verbatim>\<open>export class Wallet\<close> of wallet.js, once compiled, adds the class to that object
  under its name; the assignment \<^verbatim>\<open>module.exports = new WalletFactory()\<close> at the end
  of the file then replaces the object, and \<^verbatim>\<open>require("./wallet")\<close> gives what
  \<^verbatim>\<open>module.exports\<close> holds once the file has run. A \<^verbatim>\<open>require\<close> of a module that
  throws while loading throws in the requiring module.
\<close>

definition export_named :: "string \<Rightarrow> jsval \<Rightarrow> jsobject \<Rightarrow> jsobject" where
  "export_named name v exports =
     (case exports of [] \<Rightarrow> [[(name, v)]] | props # chain \<Rightarrow> ((name, v) # props) # chain)"

definition assign_module_exports :: "jsobject \<Rightarrow> jsobject \<Rightarrow> jsobject" where
  "assign_module_exports v exports = v"

text \<open>wallet.js: \<^verbatim>\<open>export class Wallet\<close> (line 9), \<^verbatim>\<open>module.exports\<close> (line 265).\<close>

definition wallet_js :: "loader \<Rightarrow> error + jsobject" where
  "wallet_js ld =
     load ld True
       (Inr (assign_module_exports new_WalletFactory
               (export_named ''Wallet'' (JClass ''Wallet'') (object_literal []))))"

text \<open>
  spl.js has no \<^verbatim>\<open>export\<close> declaration; it requires wallet.js on line 11,
  \<^verbatim>\<open>const { Wallet } = require("./wallet")\<close>, and binds \<^verbatim>\<open>Wallet\<close> to the property
  of that name.
\<close>

definition spl_js_Wallet :: "loader \<Rightarrow> error + jsval" where
  "spl_js_Wallet ld =
     (case wallet_js ld of Inl e \<Rightarrow> Inl e | Inr w \<Rightarrow> Inr (get_property w ''Wallet''))"

definition spl_js :: "loader \<Rightarrow> error + jsobject" where
  "spl_js ld =
     load ld False
       (case spl_js_Wallet ld of
          Inl e \<Rightarrow> Inl e
        | Inr Wallet \<Rightarrow> Inr (assign_module_exports new_SplFactory (object_literal [])))"

text \<open>The top-level module of the package; it has no \<^verbatim>\<open>export\<close> declaration.\<close>

definition index_js :: "loader \<Rightarrow> error + jsobject" where
  "index_js ld =
     load ld False
       (case wallet_js ld of
          Inl e \<Rightarrow> Inl e
        | Inr w \<Rightarrow>
           (case spl_js ld of
              Inl e \<Rightarrow> Inl e
            | Inr s \<Rightarrow>
                Inr (assign_module_exports
                       (object_literal
                          [(''Wallet'', get_property w ''Wallet''),
                           (''walletFactory'', get_property w ''walletFactory''),
                           (''Spl'', get_property s ''Spl''),
                           (''splFactory'', get_property s ''splFactory'')])
                       (object_literal []))))"

text \<open>What a consumer reads under a name of a module it requires.\<close>

definition exported :: "error + jsobject \<Rightarrow> string \<Rightarrow> error + jsval" where
  "exported m name = (case m of Inl e \<Rightarrow> Inl e | Inr exports \<Rightarrow> Inr (get_property exports name))"

section \<open>What the libraries are relied on for\<close>

text \<open>
  Properties of the required packages that the wallet module relies on. They are
  properties of the parameters, stated here and assumed where a result needs them.
  \<^item> \<^verbatim>\<open>derivePath\<close> throws when its seed argument is \<^verbatim>\<open>null\<close> (it converts the
    seed with \<^verbatim>\<open>Buffer.from(seed, "hex")\<close>).
  \<^item> \<^verbatim>\<open>derivePath\<close> derives ed25519 keys, which have hardened children only: it
    throws unless the path is \<^verbatim>\<open>m\<close> followed by one or more segments of the form
    \<^verbatim>\<open>/\<close>, decimal digits, \<^verbatim>\<open>'\<close>.
  \<^item> \<^verbatim>\<open>derivePath\<close> is injective in the path: on one seed, two paths with
    different lists of child indices give two different keys.
  \<^item> The keypair built from a seed determines the seed: an ed25519 secret key starts
    with the seed it was expanded from.
  \<^item> \<^verbatim>\<open>Keypair.fromSecretKey\<close> keeps the bytes it accepts as the secret key of the
    keypair it returns.
\<close>

definition isDigit :: "16 word \<Rightarrow> bool" where
  "isDigit c = (0x30 \<le> c \<and> c \<le> 0x39)"

text \<open>\<^verbatim>\<open>path.split("/")\<close>.\<close>

fun split_on :: "16 word \<Rightarrow> jstring \<Rightarrow> jstring list" where
  "split_on sep [] = [[]]"
| "split_on sep (c # cs) =
     (if c = sep then [] # split_on sep cs
      else (case split_on sep cs of [] \<Rightarrow> [[c]] | w # ws \<Rightarrow> (c # w) # ws))"

text \<open>A hardened segment: one or more decimal digits followed by an apostrophe.\<close>

definition hardened_segment :: "jstring \<Rightarrow> bool" where
  "hardened_segment seg =
     (case rev seg of
        [] \<Rightarrow> False
      | q # digits \<Rightarrow> q = 0x27 \<and> digits \<noteq> [] \<and> list_all isDigit digits)"

definition isValidPath :: "jstring \<Rightarrow> bool" where
  "isValidPath path =
     (case split_on 0x2F path of
        [] \<Rightarrow> False
      | m # segments \<Rightarrow> m = js ''m'' \<and> segments \<noteq> [] \<and> list_all hardened_segment segments)"

text \<open>The child indices a path names, one for each segment after \<^verbatim>\<open>m\<close>.\<close>

definition segment_index :: "jstring \<Rightarrow> nat" where
  "segment_index seg = foldl (\<lambda>n d. 10 * n + unat (d - 0x30)) 0 (butlast seg)"

definition path_indices :: "jstring \<Rightarrow> nat list" where
  "path_indices path = map segment_index (tl (split_on 0x2F path))"

definition derivePath_rejects_null_seed :: "libs \<Rightarrow> bool" where
  "derivePath_rejects_null_seed L = (\<forall>path. \<exists>e. derivePath L path None = Inl e)"

definition derivePath_hardened_only :: "libs \<Rightarrow> bool" where
  "derivePath_hardened_only L =
     (\<forall>path seedHex. \<not> isValidPath path \<longrightarrow> (\<exists>e. derivePath L (Some path) seedHex = Inl e))"

definition derivePath_injective :: "libs \<Rightarrow> bool" where
  "derivePath_injective L =
     (\<forall>d1 d2 s k1 k2. derivePath L (Some d1) s = Inr k1 \<longrightarrow>
        derivePath L (Some d2) s = Inr k2 \<longrightarrow> path_indices d1 \<noteq> path_indices d2 \<longrightarrow>
        key k1 \<noteq> key k2)"

definition keypairFromSeed_injective :: "libs \<Rightarrow> bool" where
  "keypairFromSeed_injective L =
     (\<forall>s1 s2 kp1 kp2. keypairFromSeed L s1 = Inr kp1 \<longrightarrow>
        keypairFromSeed L s2 = Inr kp2 \<longrightarrow> s1 \<noteq> s2 \<longrightarrow> kp1 \<noteq> kp2)"

definition fromSecretKey_keeps_bytes :: "libs \<Rightarrow> bool" where
  "fromSecretKey_keeps_bytes L =
     (\<forall>k kp. solana_Keypair_fromSecretKey L k = Inr kp \<longrightarrow> secretKey kp = k)"

section \<open>An instance of the libraries\<close>

text \<open>
  Small deterministic functions with the interface of the libraries. They stand in
  for the real ones where a property is exercised on concrete inputs: one phrase is
  valid; a path is accepted when it is one of the two hardened paths of the table,
  which lead to two different keys; a missing seed is rejected; and a secret key is
  its seed followed by the public key.
\<close>

definition example_mnemonic :: jstring where
  "example_mnemonic = js ''abandon ability''"

definition example_derivePath :: "jstring option \<Rightarrow> jstring option \<Rightarrow> error + keys" where
  "example_derivePath path seedHex =
     (case path of
        None \<Rightarrow> Inl (Error ''Invalid derivation path'')
      | Some p \<Rightarrow>
          if p = path_bip44 \<or> p = path_bip44Change then
            (case seedHex of
               None \<Rightarrow> Inl (TypeError ''The first argument must be of type string'')
             | Some h \<Rightarrow> Inr \<lparr>key = (if p = path_bip44 then [2] else [3]), chainCode = []\<rparr>)
          else Inl (Error ''Invalid derivation path''))"

definition example_libs :: libs where
  "example_libs =
     \<lparr>bip39_generateMnemonic = (\<lambda>strength rng. Inr example_mnemonic),
      bip39_validateMnemonic = (\<lambda>mnemonic. mnemonic = example_mnemonic),
      bip39_mnemonicToSeedSync =
        (\<lambda>mnemonic pass. case pass of None \<Rightarrow> [7] | Some p \<Rightarrow> 8 # map ucast p),
      derivePath = example_derivePath,
      nacl_sign_keyPair_fromSeed =
        (\<lambda>seed. Inr \<lparr>nacl_publicKey = rev seed, nacl_secretKey = seed @ rev seed\<rparr>),
      solana_Keypair_fromSecretKey =
        (\<lambda>k. Inr \<lparr>publicKey = drop (length k div 2) k, secretKey = k\<rparr>),
      toBase58 = map ucast\<rparr>"

definition example_wordlist :: "jstring list" where
  "example_wordlist = replicate 2048 (js ''abandon'')"

definition example_rng :: "nat \<Rightarrow> bytes" where
  "example_rng n = replicate n 0"

definition example_libs_standard :: libs where
  "example_libs_standard =
     example_libs
       \<lparr>bip39_generateMnemonic := standard_generateMnemonic example_wordlist (\<lambda>bs. [0]),
        bip39_validateMnemonic := (\<lambda>mnemonic. length (split_whitespace mnemonic) = 24)\<rparr>"

section \<open>Properties\<close>

subsection \<open>Properties of trimming, splitting and joining\<close>

lemma isWhiteSpace_space [simp]: "isWhiteSpace 0x20"
  by (simp add: isWhiteSpace_def)

lemma js_space [simp]: "js '' '' = [0x20]"
  by (simp add: js_def)

lemma split_whitespace_free:
  "list_all (\<lambda>c. \<not> isWhiteSpace c) s \<Longrightarrow> split_whitespace s = [s]"
proof -
  assume "list_all (\<lambda>c. \<not> isWhiteSpace c) s"
  then have "dropWhile (\<lambda>c. \<not> isWhiteSpace c) s = []"
    by (simp add: list_all_iff)
  then show ?thesis
    by (subst split_whitespace.simps) (simp only: list.case)
qed

lemma split_whitespace_word_space:
  assumes w: "list_all (\<lambda>c. \<not> isWhiteSpace c) w"
    and r: "r \<noteq> []" "\<not> isWhiteSpace (hd r)"
  shows "split_whitespace (w @ 0x20 # r) = w # split_whitespace r"
proof -
  from w have dw: "dropWhile (\<lambda>c. \<not> isWhiteSpace c) (w @ 0x20 # r) = 0x20 # r"
    by (simp add: list_all_iff dropWhile_append)
  from w have tw: "takeWhile (\<lambda>c. \<not> isWhiteSpace c) (w @ 0x20 # r) = w"
    by (simp add: list_all_iff takeWhile_append)
  from r have "dropWhile isWhiteSpace r = r"
    by (cases r) simp_all
  with dw tw show ?thesis
    by (simp add: split_whitespace.simps [of "w @ 0x20 # r"])
qed

lemma join_normal_words_hd:
  "normal_words ws \<Longrightarrow> join [0x20] ws \<noteq> [] \<and> \<not> isWhiteSpace (hd (join [0x20] ws))"
  by (cases "([0x20] :: jstring, ws)" rule: join.cases)
     (auto simp: normal_words_def neq_Nil_conv)

lemma join_normal_words_last:
  "normal_words ws \<Longrightarrow> \<not> isWhiteSpace (last (join [0x20] ws))"
proof (induction "[0x20] :: jstring" ws rule: join.induct)
  case 1
  then show ?case by (simp add: normal_words_def)
next
  case (2 w)
  then show ?case by (auto simp: normal_words_def list_all_iff)
next
  case (3 w v vs)
  then have nw: "normal_words (v # vs)"
    by (simp add: normal_words_def)
  with join_normal_words_hd [of "v # vs"] have "join [0x20] (v # vs) \<noteq> []"
    by blast
  with 3 nw show ?case
    by simp
qed

lemma split_join_normal_words:
  "normal_words ws \<Longrightarrow> split_whitespace (join [0x20] ws) = ws"
proof (induction "[0x20] :: jstring" ws rule: join.induct)
  case 1
  then show ?case by (simp add: normal_words_def)
next
  case (2 w)
  then show ?case by (simp add: normal_words_def split_whitespace_free)
next
  case (3 w v vs)
  then have nw: "normal_words (v # vs)" and w: "list_all (\<lambda>c. \<not> isWhiteSpace c) w"
    by (simp_all add: normal_words_def)
  from join_normal_words_hd [OF nw] w 3(1) [OF nw] show ?case
    by (simp add: split_whitespace_word_space)
qed

lemma trim_fixed:
  assumes "s \<noteq> []" "\<not> isWhiteSpace (hd s)" "\<not> isWhiteSpace (last s)"
  shows "trim s = s"
proof -
  from assms(1,2) have "dropWhile isWhiteSpace s = s"
    by (cases s) simp_all
  moreover from assms(1,3) have "dropWhile isWhiteSpace (rev s) = rev s"
    by (cases "rev s") (auto simp: last_rev [symmetric])
  ultimately show ?thesis
    by (simp add: trim_def)
qed

lemma trim_join_normal_words:
  "normal_words ws \<Longrightarrow> trim (join [0x20] ws) = join [0x20] ws"
  using join_normal_words_hd [of ws] join_normal_words_last [of ws]
  by (simp add: trim_fixed)

lemma trim_ends:
  assumes "trim s \<noteq> []"
  shows "\<not> isWhiteSpace (hd (trim s)) \<and> \<not> isWhiteSpace (last (trim s))"
proof -
  let ?a = "dropWhile isWhiteSpace s"
  let ?b = "dropWhile isWhiteSpace (rev ?a)"
  from assms have b: "?b \<noteq> []"
    by (simp add: trim_def)
  then have hdb: "\<not> isWhiteSpace (hd ?b)"
    by (rule hd_dropWhile)
  have a: "?a \<noteq> []"
  proof
    assume e: "?a = []"
    have "?b = []" unfolding e by simp
    with b show False by contradiction
  qed
  then have hda: "\<not> isWhiteSpace (hd ?a)"
    by (rule hd_dropWhile)
  have "last (takeWhile isWhiteSpace (rev ?a) @ ?b) = last ?b"
    using b by (rule last_appendR)
  then have "last ?b = last (rev ?a)"
    by simp
  also have "\<dots> = hd ?a"
    using a by (simp add: last_rev)
  finally have lastb: "\<not> isWhiteSpace (last ?b)"
    using hda by simp
  from b hdb lastb show ?thesis
    by (simp add: trim_def hd_rev last_rev)
qed

lemma split_whitespace_trimmed:
  "s \<noteq> [] \<Longrightarrow> \<not> isWhiteSpace (hd s) \<Longrightarrow> \<not> isWhiteSpace (last s)
   \<Longrightarrow> normal_words (split_whitespace s)"
proof (induction s rule: split_whitespace.induct)
  case (1 s)
  let ?t = "takeWhile (\<lambda>c. \<not> isWhiteSpace c) s"
  have t: "?t \<noteq> [] \<and> list_all (\<lambda>c. \<not> isWhiteSpace c) ?t"
    using "1.prems"(1,2) by (cases s) (auto simp: list_all_iff dest: set_takeWhileD)
  show ?case
  proof (cases "dropWhile (\<lambda>c. \<not> isWhiteSpace c) s")
    case Nil
    then have "split_whitespace s = [s]"
      by (subst split_whitespace.simps) (simp only: list.case)
    moreover from Nil have "list_all (\<lambda>c. \<not> isWhiteSpace c) s"
      by (simp add: list_all_iff)
    ultimately show ?thesis
      using "1.prems"(1) by (simp add: normal_words_def)
  next
    case (Cons x r)
    let ?r = "dropWhile isWhiteSpace r"
    have sp: "split_whitespace s = ?t # split_whitespace ?r"
      by (subst split_whitespace.simps) (simp only: Cons list.case)
    have x: "isWhiteSpace x"
      using hd_dropWhile [of "\<lambda>c. \<not> isWhiteSpace c" s] Cons by simp
    have s: "s = ?t @ x # r"
      using takeWhile_dropWhile_id [of "\<lambda>c. \<not> isWhiteSpace c" s] Cons by simp
    have "last s = last (x # r)"
      by (subst s) simp
    with x "1.prems"(3) have r: "r \<noteq> []" "last r = last s"
      by (auto split: if_splits)
    have r': "?r \<noteq> []"
    proof
      assume "?r = []"
      then have "\<forall>c\<in>set r. isWhiteSpace c" by simp
      with r "1.prems"(3) show False
        using last_in_set [of r] by auto
    qed
    then have hd: "\<not> isWhiteSpace (hd ?r)"
      by (rule hd_dropWhile)
    have "last (takeWhile isWhiteSpace r @ ?r) = last ?r"
      using r' by (rule last_appendR)
    then have "last ?r = last s"
      using r by simp
    with "1.prems"(3) have "normal_words (split_whitespace ?r)"
      using "1.IH" [OF Cons r' hd] by simp
    with sp t show ?thesis
      by (simp add: normal_words_def)
  qed
qed


lemma normalizeMnemonic_words:
  "trim m \<noteq> [] \<Longrightarrow> normal_words (split_whitespace (trim m))"
  using trim_ends [of m] by (simp add: split_whitespace_trimmed)

lemma split_whitespace_Nil: "split_whitespace [] = [[]]"
  by (subst split_whitespace.simps) simp

lemma trim_Nil: "trim [] = []"
  by (simp add: trim_def)

lemma normalizeMnemonic_Nil: "normalizeMnemonic [] = []"
  by (simp add: normalizeMnemonic_def split_whitespace_Nil trim_Nil)

lemma normalizeMnemonic_join:
  assumes "normal_words ws"
  shows "normalizeMnemonic (join [0x20] ws) = join [0x20] ws"
proof -
  have "trim (join [0x20] ws) = join [0x20] ws"
    using assms by (rule trim_join_normal_words)
  moreover have "split_whitespace (join [0x20] ws) = ws"
    using assms by (rule split_join_normal_words)
  ultimately show ?thesis
    by (simp add: normalizeMnemonic_def)
qed

subsection \<open>Mnemonic normalization\<close>

lemma words_of_dropWhile: "words_of (dropWhile isWhiteSpace s) = words_of s"
  by (induction s) simp_all

lemma words_of_all_white: "list_all isWhiteSpace t \<Longrightarrow> words_of t = []"
  by (induction t) simp_all

lemma words_of_append_white:
  "list_all isWhiteSpace t \<Longrightarrow> words_of (s @ t) = words_of s"
proof (induction s rule: words_of.induct)
  case 1
  then show ?case by (simp add: words_of_all_white)
next
  case (2 c cs)
  show ?case
  proof (cases "isWhiteSpace c")
    case True
    with 2 show ?thesis by simp
  next
    case False
    let ?P = "\<lambda>c. \<not> isWhiteSpace c"
    show ?thesis
    proof (cases "\<forall>x\<in>set cs. ?P x")
      case True
      from "2.prems" have "takeWhile ?P t = []" "dropWhile ?P t = t"
        by (cases t; simp)+
      with True have tw: "takeWhile ?P (cs @ t) = cs" and dw: "dropWhile ?P (cs @ t) = t"
        by (simp_all add: takeWhile_append dropWhile_append)
      from True have tc: "takeWhile ?P cs = cs" and dc: "dropWhile ?P cs = []"
        by (simp_all only: takeWhile_eq_all_conv dropWhile_eq_Nil_conv)
      have "words_of ((c # cs) @ t) = (c # cs) # words_of t"
        using False by (simp add: tw dw)
      moreover have "words_of (c # cs) = [c # cs]"
        using False by (simp add: tc dc)
      ultimately show ?thesis
        using "2.prems" by (simp add: words_of_all_white)
    next
      case nall: False
      then have tw: "takeWhile ?P (cs @ t) = takeWhile ?P cs"
        and dw: "dropWhile ?P (cs @ t) = dropWhile ?P cs @ t"
        by (auto simp: takeWhile_append dropWhile_append)
      with False "2.IH"(2) [OF False "2.prems"] show ?thesis
        by simp
    qed
  qed
qed

lemma words_of_trim: "words_of (trim s) = words_of s"
proof -
  let ?a = "dropWhile isWhiteSpace s"
  have "rev (dropWhile isWhiteSpace (rev ?a)) @ rev (takeWhile isWhiteSpace (rev ?a)) =
        rev (takeWhile isWhiteSpace (rev ?a) @ dropWhile isWhiteSpace (rev ?a))"
    by (simp only: rev_append)
  also have "\<dots> = ?a"
    by (simp only: takeWhile_dropWhile_id rev_rev_ident)
  finally have a: "?a = trim s @ rev (takeWhile isWhiteSpace (rev ?a))"
    by (simp only: trim_def)
  have "list_all isWhiteSpace (rev (takeWhile isWhiteSpace (rev ?a)))"
    by (auto simp: list_all_iff dest: set_takeWhileD)
  then have "words_of (trim s @ rev (takeWhile isWhiteSpace (rev ?a))) = words_of (trim s)"
    by (rule words_of_append_white)
  with a have "words_of ?a = words_of (trim s)"
    by simp
  then show ?thesis
    by (simp add: words_of_dropWhile)
qed

lemma split_whitespace_words_of:
  "s \<noteq> [] \<Longrightarrow> \<not> isWhiteSpace (hd s) \<Longrightarrow> \<not> isWhiteSpace (last s)
   \<Longrightarrow> split_whitespace s = words_of s"
proof (induction s rule: split_whitespace.induct)
  case (1 s)
  let ?P = "\<lambda>c. \<not> isWhiteSpace c"
  from "1.prems"(1) obtain c cs where s: "s = c # cs"
    by (cases s) auto
  with "1.prems"(2) have c: "\<not> isWhiteSpace c" by simp
  then have ws: "words_of s = takeWhile ?P s # words_of (dropWhile ?P s)"
    by (simp add: s)
  show ?case
  proof (cases "dropWhile ?P s")
    case Nil
    then have "split_whitespace s = [s]"
      by (subst split_whitespace.simps) (simp only: list.case)
    moreover from Nil have "takeWhile ?P s = s"
      by (simp only: takeWhile_eq_all_conv dropWhile_eq_Nil_conv)
    ultimately show ?thesis
      by (simp only: ws Nil words_of.simps)
  next
    case (Cons x r)
    let ?r = "dropWhile isWhiteSpace r"
    have sp: "split_whitespace s = takeWhile ?P s # split_whitespace ?r"
      by (subst split_whitespace.simps) (simp only: Cons list.case)
    have x: "isWhiteSpace x"
      using hd_dropWhile [of ?P s] Cons by simp
    have s': "s = takeWhile ?P s @ x # r"
      using takeWhile_dropWhile_id [of ?P s] Cons by simp
    have "last s = last (x # r)"
      by (subst s') simp
    with x "1.prems"(3) have r: "r \<noteq> []" "last r = last s"
      by (auto split: if_splits)
    have r': "?r \<noteq> []"
    proof
      assume "?r = []"
      then have "\<forall>c\<in>set r. isWhiteSpace c" by simp
      with r "1.prems"(3) show False
        using last_in_set [of r] by auto
    qed
    then have hd: "\<not> isWhiteSpace (hd ?r)"
      by (rule hd_dropWhile)
    have "last (takeWhile isWhiteSpace r @ ?r) = last ?r"
      using r' by (rule last_appendR)
    then have "last ?r = last s"
      using r by simp
    with "1.prems"(3) have "split_whitespace ?r = words_of ?r"
      using "1.IH" [OF Cons r' hd] by simp
    also have "\<dots> = words_of (x # r)"
      using x by (simp add: words_of_dropWhile)
    finally show ?thesis
      using sp ws Cons by simp
  qed
qed

lemma normalizeMnemonic_words_of: "normalizeMnemonic m = join [0x20] (words_of m)"
proof (cases "trim m = []")
  case True
  then have "normalizeMnemonic m = []"
    by (simp add: normalizeMnemonic_def split_whitespace_Nil)
  moreover from True have "words_of m = []"
    using words_of_trim [of m] by simp
  ultimately show ?thesis by simp
next
  case False
  with trim_ends [of m] have "split_whitespace (trim m) = words_of (trim m)"
    by (simp add: split_whitespace_words_of)
  then show ?thesis
    by (simp add: normalizeMnemonic_def words_of_trim)
qed

lemma words_of_normal:
  "list_all (\<lambda>w. w \<noteq> [] \<and> list_all (\<lambda>c. \<not> isWhiteSpace c) w) (words_of m)"
proof (induction m rule: words_of.induct)
  case 1
  then show ?case by simp
next
  case (2 c cs)
  show ?case
  proof (cases "isWhiteSpace c")
    case True
    with 2 show ?thesis by simp
  next
    case False
    have "list_all (\<lambda>c. \<not> isWhiteSpace c) (takeWhile (\<lambda>c. \<not> isWhiteSpace c) cs)"
      unfolding list_all_iff by (blast dest: set_takeWhileD)
    with False "2.IH"(2) show ?thesis
      by simp
  qed
qed

lemma concat_words_of: "concat (words_of m) = filter (\<lambda>c. \<not> isWhiteSpace c) m"
proof (induction m rule: words_of.induct)
  case 1
  then show ?case by simp
next
  case (2 c cs)
  let ?P = "\<lambda>c. \<not> isWhiteSpace c"
  show ?case
  proof (cases "isWhiteSpace c")
    case True
    with 2 show ?thesis by simp
  next
    case False
    have "filter ?P cs = takeWhile ?P cs @ filter ?P (dropWhile ?P cs)"
      by (induction cs) simp_all
    then show ?thesis
      using False "2.IH"(2) by simp
  qed
qed

lemma filter_join_space:
  "list_all (\<lambda>w. list_all (\<lambda>c. \<not> isWhiteSpace c) w) ws \<Longrightarrow>
   filter (\<lambda>c. \<not> isWhiteSpace c) (join [0x20] ws) = concat ws"
  by (induction "[0x20] :: jstring" ws rule: join.induct) (simp_all add: list_all_iff)

text \<open>
  Claim C4, as the code has it: normalization is idempotent, and the normalized phrase
  is the words of the given string joined by single spaces, each word non-empty and
  without white space. The code units that are not white space are those of the given
  string, in the same order and unchanged: the letters keep their case, and nothing in
  \<^verbatim>\<open>_normalizeMnemonic\<close> converts to lower case.
\<close>

theorem normalizeMnemonic_idempotent_words:
  "normalizeMnemonic (normalizeMnemonic m) = normalizeMnemonic m \<and>
   normalizeMnemonic m = join (js '' '') (words_of m) \<and>
   list_all (\<lambda>w. w \<noteq> [] \<and> list_all (\<lambda>c. \<not> isWhiteSpace c) w) (words_of m) \<and>
   concat (words_of m) = filter (\<lambda>c. \<not> isWhiteSpace c) m \<and>
   filter (\<lambda>c. \<not> isWhiteSpace c) (normalizeMnemonic m) = filter (\<lambda>c. \<not> isWhiteSpace c) m"
proof -
  have i: "normalizeMnemonic (normalizeMnemonic m) = normalizeMnemonic m"
  proof (cases "words_of m = []")
    case True
    then show ?thesis
      by (simp add: normalizeMnemonic_words_of [of m] normalizeMnemonic_Nil)
  next
    case False
    with words_of_normal [of m] have "normal_words (words_of m)"
      by (simp add: normal_words_def)
    then show ?thesis
      unfolding normalizeMnemonic_words_of [of m] by (rule normalizeMnemonic_join)
  qed
  have "list_all (\<lambda>w. list_all (\<lambda>c. \<not> isWhiteSpace c) w) (words_of m)"
    using words_of_normal [of m] by (simp add: list_all_iff)
  then have f: "filter (\<lambda>c. \<not> isWhiteSpace c) (normalizeMnemonic m) = filter (\<lambda>c. \<not> isWhiteSpace c) m"
    by (simp add: normalizeMnemonic_words_of [of m] filter_join_space concat_words_of)
  from i f show ?thesis
    by (simp add: normalizeMnemonic_words_of [of m] words_of_normal concat_words_of)
qed

text \<open>
  Claim C4 as stated fails: a phrase with upper-case letters is normalized to single
  spaces, and its upper-case letters are still there.
\<close>

theorem normalizeMnemonic_keeps_case:
  "normalizeMnemonic (js ''Abandon  ABILITY'') = js ''Abandon ABILITY'' \<and>
   list_ex isAsciiUpper (normalizeMnemonic (js ''Abandon  ABILITY''))"
  by code_simp

subsection \<open>The table of derivation paths\<close>

lemma path_bip44Change_nonempty: "path_bip44Change \<noteq> []"
  by (simp add: path_bip44Change_def js_def)

lemma paths_distinct:
  "path_deprecated \<noteq> path_bip44" "path_deprecated \<noteq> path_bip44Change"
  "path_bip44 \<noteq> path_bip44Change"
  by (simp_all add: path_deprecated_def path_bip44_def path_bip44Change_def js_def)

lemma paths_nonempty: "path_deprecated \<noteq> []" "path_bip44 \<noteq> []"
  by (simp_all add: path_deprecated_def path_bip44_def js_def)

lemma Wallet_create_derivationPaths:
  "w_derivationPaths (state_of (Wallet_create L rng pass d this)) = w_derivationPaths this"
  by (simp add: Wallet_create_def Let_def split: sum.splits)

lemma Wallet_restoreFromMnemonic_derivationPaths:
  "w_derivationPaths (state_of (Wallet_restoreFromMnemonic L m pass d this)) =
   w_derivationPaths this"
  by (simp add: Wallet_restoreFromMnemonic_def Let_def split: sum.splits)

lemma Wallet_restoreFromSeed_derivationPaths:
  "w_derivationPaths (state_of (Wallet_restoreFromSeed L seed this)) = w_derivationPaths this"
  by (simp add: Wallet_restoreFromSeed_def Let_def split: sum.splits)

lemma Wallet_restoreFromPrivateKey_derivationPaths:
  "w_derivationPaths (state_of (Wallet_restoreFromPrivateKey L k this)) = w_derivationPaths this"
  by (simp add: Wallet_restoreFromPrivateKey_def Let_def split: sum.splits)

lemma invoke_derivationPaths:
  "w_derivationPaths (invoke L c this) = w_derivationPaths this"
  by (cases c)
     (simp_all add: Wallet_create_derivationPaths Wallet_restoreFromMnemonic_derivationPaths
        Wallet_restoreFromSeed_derivationPaths Wallet_restoreFromPrivateKey_derivationPaths)

text \<open>
  Claim C5, as the code has it: the table of a wallet has exactly three entries, named
  \<^verbatim>\<open>deprecated\<close>, \<^verbatim>\<open>bip44\<close> and \<^verbatim>\<open>bip44Change\<close>, with the paths
  \<^verbatim>\<open>m/501'/0'/0/0\<close>, \<^verbatim>\<open>m/44'/501'/0'\<close> and \<^verbatim>\<open>m/44'/501'/0'/0'\<close>; the factory has
  the same table, and no call on an instance changes it.
\<close>

theorem derivationPaths_table:
  "Wallet_derivationPaths Wallet_constructor =
     [(''deprecated'', js ''m/501'/0'/0/0''),
      (''bip44'', js (''m/44'/501'/0'' @ [CHR 0x27])),
      (''bip44Change'', js (''m/44'/501'/0'/0'' @ [CHR 0x27]))] \<and>
   WalletFactory_derivationPaths = Wallet_derivationPaths Wallet_constructor \<and>
   Wallet_derivationPaths (invoke L c this) = Wallet_derivationPaths this"
  by (simp add: Wallet_derivationPaths_def Wallet_constructor_def WalletFactory_derivationPaths_def
      path_deprecated_def path_bip44_def path_bip44Change_def invoke_derivationPaths)

text \<open>
  Claim C5 as stated fails on the first name: the table has no entry \<^verbatim>\<open>legacy\<close>;
  the path \<^verbatim>\<open>m/501'/0'/0/0\<close> is stored under \<^verbatim>\<open>deprecated\<close>.
\<close>

theorem derivationPaths_no_legacy:
  "map_of (Wallet_derivationPaths Wallet_constructor) ''legacy'' = None \<and>
   map fst (Wallet_derivationPaths Wallet_constructor) = [''deprecated'', ''bip44'', ''bip44Change'']"
  by (simp add: Wallet_derivationPaths_def Wallet_constructor_def)

subsection \<open>The default path\<close>

lemma example_mnemonic_normalized: "normalizeMnemonic example_mnemonic = example_mnemonic"
  unfolding example_mnemonic_def by code_simp

lemma example_paths_valid: "isValidPath path_bip44" "isValidPath path_bip44Change"
  unfolding path_bip44_def path_bip44Change_def by code_simp+

lemma example_derivePath_bip44Change:
  "derivePath example_libs (Some path_bip44Change) (Some h) = Inr \<lparr>key = [3], chainCode = []\<rparr>"
  by (simp add: example_libs_def example_derivePath_def paths_distinct [symmetric])

lemma example_derivePath_bip44:
  "derivePath example_libs (Some path_bip44) (Some h) = Inr \<lparr>key = [2], chainCode = []\<rparr>"
  by (simp add: example_libs_def example_derivePath_def)

lemma example_keypairFromSeed:
  "keypairFromSeed example_libs seed =
     Inr \<lparr>publicKey = drop (length (seed @ rev seed) div 2) (seed @ rev seed),
          secretKey = seed @ rev seed\<rparr>"
  by (simp add: keypairFromSeed_def example_libs_def)

lemma example_seedHex:
  "mnemonicToSeedHex example_libs example_mnemonic None = Some (toHex [7])"
  by (simp add: mnemonicToSeedHex_def example_libs_def)

text \<open>
  Claim C6: on an instance with the constructor's table, \<^verbatim>\<open>create\<close> and
  \<^verbatim>\<open>restoreFromMnemonic\<close> called without a derivation path behave as when called with
  the \<^verbatim>\<open>bip44Change\<close> path \<^verbatim>\<open>m/44'/501'/0'/0'\<close>, and record that path on the wallet.
  The child key is derived along that path: the seed of the wallet is the key that
  \<^verbatim>\<open>derivePath\<close> returns for \<^verbatim>\<open>m/44'/501'/0'/0'\<close> and the hexadecimal seed of the
  wallet, the keypair is built from that key, and when \<^verbatim>\<open>derivePath\<close> throws for that
  path the call throws the same exception.
\<close>

theorem default_derivation_path:
  assumes "map_of (w_derivationPaths this) ''bip44Change'' = Some path_bip44Change"
  shows "path_bip44Change = js (''m/44'/501'/0'/0'' @ [CHR 0x27]) \<and>
         Wallet_create L rng pass None this =
           Wallet_create L rng pass (Some path_bip44Change) this \<and>
         w_derivedPath (state_of (Wallet_create L rng pass None this)) = Some path_bip44Change \<and>
         Wallet_restoreFromMnemonic L m pass None this =
           Wallet_restoreFromMnemonic L m pass (Some path_bip44Change) this \<and>
         w_derivedPath (state_of (Wallet_restoreFromMnemonic L m pass None this)) =
           Some path_bip44Change \<and>
         (\<forall>g ks. generateMnemonic L rng = Inr g \<longrightarrow>
            derivePath L (Some path_bip44Change) (mnemonicToSeedHex L g pass) = Inr ks \<longrightarrow>
            w_seed (state_of (Wallet_create L rng pass None this)) = Some (key ks) \<and>
            (\<forall>kp. keypairFromSeed L (key ks) = Inr kp \<longrightarrow>
               Wallet_create L rng pass None this =
                 Return (this\<lparr>w_derivedPath := Some path_bip44Change, w_mnemonic := Some g,
                           w_seedHex := mnemonicToSeedHex L g pass, w_seed := Some (key ks),
                           w_keypair := Some kp\<rparr>))) \<and>
         (\<forall>g e. generateMnemonic L rng = Inr g \<longrightarrow>
            derivePath L (Some path_bip44Change) (mnemonicToSeedHex L g pass) = Inl e \<longrightarrow>
            Wallet_create L rng pass None this =
              Throw e (this\<lparr>w_derivedPath := Some path_bip44Change, w_mnemonic := Some g,
                            w_seedHex := mnemonicToSeedHex L g pass\<rparr>)) \<and>
         (\<forall>ks. derivePath L (Some path_bip44Change)
                  (mnemonicToSeedHex L (normalizeMnemonic m) pass) = Inr ks \<longrightarrow>
            w_seed (state_of (Wallet_restoreFromMnemonic L m pass None this)) = Some (key ks) \<and>
            (\<forall>kp. keypairFromSeed L (key ks) = Inr kp \<longrightarrow>
               Wallet_restoreFromMnemonic L m pass None this =
                 Return (this\<lparr>w_derivedPath := Some path_bip44Change,
                           w_mnemonic := Some (normalizeMnemonic m),
                           w_seedHex := mnemonicToSeedHex L (normalizeMnemonic m) pass,
                           w_seed := Some (key ks), w_keypair := Some kp\<rparr>))) \<and>
         (\<forall>e. derivePath L (Some path_bip44Change)
                  (mnemonicToSeedHex L (normalizeMnemonic m) pass) = Inl e \<longrightarrow>
            Wallet_restoreFromMnemonic L m pass None this =
              Throw e (this\<lparr>w_derivedPath := Some path_bip44Change,
                            w_mnemonic := Some (normalizeMnemonic m),
                            w_seedHex := mnemonicToSeedHex L (normalizeMnemonic m) pass\<rparr>))"
proof -
  have a: "js_or None (map_of (w_derivationPaths this) ''bip44Change'') = Some path_bip44Change"
    using assms by (simp add: js_or_def)
  have b: "js_or (Some path_bip44Change) x = Some path_bip44Change" for x
    by (simp add: js_or_def path_bip44Change_nonempty)
  have c: "w_derivedPath (state_of (Wallet_create L rng pass None this)) = Some path_bip44Change"
    by (simp add: Wallet_create_def a Let_def split: sum.splits)
  have d: "w_derivedPath (state_of (Wallet_restoreFromMnemonic L m pass None this)) =
           Some path_bip44Change"
    by (simp add: Wallet_restoreFromMnemonic_def a Let_def split: sum.splits)
  have e: "Wallet_create L rng pass None this =
           Wallet_create L rng pass (Some path_bip44Change) this"
    by (simp add: Wallet_create_def a b)
  have f: "Wallet_restoreFromMnemonic L m pass None this =
           Wallet_restoreFromMnemonic L m pass (Some path_bip44Change) this"
    by (simp add: Wallet_restoreFromMnemonic_def a b)
  have g1: "w_seed (state_of (Wallet_create L rng pass None this)) = Some (key ks)"
    if "generateMnemonic L rng = Inr g"
      "derivePath L (Some path_bip44Change) (mnemonicToSeedHex L g pass) = Inr ks" for g ks
    using that by (simp add: Wallet_create_def a Let_def split: sum.splits)
  have g2: "Wallet_create L rng pass None this =
      Return (this\<lparr>w_derivedPath := Some path_bip44Change, w_mnemonic := Some g,
                w_seedHex := mnemonicToSeedHex L g pass, w_seed := Some (key ks),
                w_keypair := Some kp\<rparr>)"
    if "generateMnemonic L rng = Inr g"
      "derivePath L (Some path_bip44Change) (mnemonicToSeedHex L g pass) = Inr ks"
      "keypairFromSeed L (key ks) = Inr kp" for g ks kp
    using that by (simp add: Wallet_create_def a Let_def)
  have g3: "Wallet_create L rng pass None this =
      Throw e (this\<lparr>w_derivedPath := Some path_bip44Change, w_mnemonic := Some g,
                 w_seedHex := mnemonicToSeedHex L g pass\<rparr>)"
    if "generateMnemonic L rng = Inr g"
      "derivePath L (Some path_bip44Change) (mnemonicToSeedHex L g pass) = Inl e" for g e
    using that by (simp add: Wallet_create_def a Let_def)
  have r1: "w_seed (state_of (Wallet_restoreFromMnemonic L m pass None this)) = Some (key ks)"
    if "derivePath L (Some path_bip44Change)
          (mnemonicToSeedHex L (normalizeMnemonic m) pass) = Inr ks" for ks
    using that by (simp add: Wallet_restoreFromMnemonic_def a Let_def split: sum.splits)
  have r2: "Wallet_restoreFromMnemonic L m pass None this =
      Return (this\<lparr>w_derivedPath := Some path_bip44Change,
                w_mnemonic := Some (normalizeMnemonic m),
                w_seedHex := mnemonicToSeedHex L (normalizeMnemonic m) pass,
                w_seed := Some (key ks), w_keypair := Some kp\<rparr>)"
    if "derivePath L (Some path_bip44Change)
          (mnemonicToSeedHex L (normalizeMnemonic m) pass) = Inr ks"
      "keypairFromSeed L (key ks) = Inr kp" for ks kp
    using that by (simp add: Wallet_restoreFromMnemonic_def a Let_def)
  have r3: "Wallet_restoreFromMnemonic L m pass None this =
      Throw e (this\<lparr>w_derivedPath := Some path_bip44Change,
                 w_mnemonic := Some (normalizeMnemonic m),
                 w_seedHex := mnemonicToSeedHex L (normalizeMnemonic m) pass\<rparr>)"
    if "derivePath L (Some path_bip44Change)
          (mnemonicToSeedHex L (normalizeMnemonic m) pass) = Inl e" for e
    using that by (simp add: Wallet_restoreFromMnemonic_def a Let_def)
  have p: "path_bip44Change = js (''m/44'/501'/0'/0'' @ [CHR 0x27])"
    by (simp add: path_bip44Change_def)
  show ?thesis
    using c d e f g1 g2 g3 r1 r2 r3 by (intro conjI allI impI p) blast+
qed

text \<open>
  Claim C6 on a new wallet, with the example libraries: the seed of the restored
  wallet is the key they give for the \<^verbatim>\<open>bip44Change\<close> path.
\<close>

theorem default_derivation_path_witness:
  "Wallet_restoreFromMnemonic example_libs example_mnemonic None None Wallet_constructor =
     Return (Wallet_constructor\<lparr>w_derivedPath := Some path_bip44Change,
               w_mnemonic := Some example_mnemonic, w_seedHex := Some (toHex [7]),
               w_seed := Some [3],
               w_keypair := Some \<lparr>publicKey = [3], secretKey = [3, 3]\<rparr>\<rparr>) \<and>
   w_derivedPath (state_of (Wallet_create example_libs example_rng None None Wallet_constructor))
     = Some path_bip44Change"
proof -
  have t: "map_of (w_derivationPaths Wallet_constructor) ''bip44Change'' = Some path_bip44Change"
    by (simp add: Wallet_constructor_def)
  have k: "derivePath example_libs (Some path_bip44Change)
      (mnemonicToSeedHex example_libs (normalizeMnemonic example_mnemonic) None) =
      Inr \<lparr>key = [3], chainCode = []\<rparr>"
    by (simp add: example_mnemonic_normalized example_seedHex example_derivePath_bip44Change)
  have kp: "keypairFromSeed example_libs (key \<lparr>key = [3], chainCode = []\<rparr>) =
      Inr \<lparr>publicKey = [3], secretKey = [3, 3]\<rparr>"
    by (simp add: example_keypairFromSeed)
  from default_derivation_path [OF t, of example_libs example_rng None example_mnemonic] k kp
  show ?thesis
    by (auto simp: example_mnemonic_normalized example_seedHex)
qed

subsection \<open>Restoring from a private key\<close>

text \<open>
  Claim C7: \<^verbatim>\<open>restoreFromPrivateKey\<close> hands the bytes it is given to
  \<^verbatim>\<open>Keypair.fromSecretKey\<close> as they are and the getter \<^verbatim>\<open>privateKey\<close> returns the
  secret key of the keypair built. With a \<^verbatim>\<open>Keypair.fromSecretKey\<close> that keeps the
  bytes it accepts as the secret key of its result, the private key of the restored
  wallet is the byte sequence given.
\<close>

theorem restoreFromPrivateKey_keeps_bytes:
  assumes "fromSecretKey_keeps_bytes L"
    and "Wallet_restoreFromPrivateKey L privateKey this = Return w"
  shows "Wallet_privateKey w = Some privateKey"
  using assms
  by (auto simp: Wallet_restoreFromPrivateKey_def Wallet_privateKey_def Let_def
      fromSecretKey_keeps_bytes_def split: sum.splits)

text \<open>Claim C7 on a four-byte key, with the example libraries.\<close>

theorem restoreFromPrivateKey_keeps_bytes_witness:
  "\<exists>w. Wallet_restoreFromPrivateKey example_libs [1, 2, 3, 4] Wallet_constructor = Return w \<and>
       Wallet_privateKey w = Some [1, 2, 3, 4]"
proof -
  have c: "fromSecretKey_keeps_bytes example_libs"
    by (auto simp: fromSecretKey_keeps_bytes_def example_libs_def)
  obtain w where w: "Wallet_restoreFromPrivateKey example_libs [1, 2, 3, 4] Wallet_constructor = Return w"
    by (simp add: Wallet_restoreFromPrivateKey_def example_libs_def)
  from restoreFromPrivateKey_keeps_bytes [OF c w] w show ?thesis
    by blast
qed

subsection \<open>Creating a wallet and restoring it from its mnemonic\<close>

text \<open>
  Claim C1: when \<^verbatim>\<open>create\<close> returns a wallet for a passphrase and a path, and the
  phrase it generated is in normalized form (words joined by single spaces, as the
  mnemonic library produces them), then \<^verbatim>\<open>restoreFromMnemonic\<close> with that phrase, the
  same passphrase and the same path returns the same wallet, and so the same keypair.
  The libraries are fixed functions, and the path is any path, the three of the table
  among them.
\<close>

theorem create_restore_roundtrip:
  assumes "WalletFactory_create L rng pass derivedPath = Return w"
    and "w_mnemonic w = Some m"
    and "normalizeMnemonic m = m"
  shows "WalletFactory_restoreFromMnemonic L m pass derivedPath = Return w \<and>
         Wallet_keypair (state_of (WalletFactory_restoreFromMnemonic L m pass derivedPath)) =
           Wallet_keypair w"
proof -
  from assms(1) obtain g where g: "generateMnemonic L rng = Inr g"
    by (auto simp: WalletFactory_create_def Wallet_create_def Let_def split: sum.splits)
  with assms(1,2) have "g = m"
    by (auto simp: WalletFactory_create_def Wallet_create_def Let_def split: sum.splits)
  with g assms(1,3) have "WalletFactory_restoreFromMnemonic L m pass derivedPath = Return w"
    by (simp add: WalletFactory_create_def Wallet_create_def
        WalletFactory_restoreFromMnemonic_def Wallet_restoreFromMnemonic_def Let_def)
  then show ?thesis
    by simp
qed

lemma example_create:
  "WalletFactory_create example_libs example_rng (Some (js ''secret'')) (Some path_bip44) =
   Return \<lparr>w_derivedPath = Some path_bip44, w_mnemonic = Some example_mnemonic, w_seed = Some [2],
      w_seedHex = Some (toHex (8 # map ucast (js ''secret''))),
      w_keypair = Some \<lparr>publicKey = [2], secretKey = [2, 2]\<rparr>,
      w_derivationPaths = w_derivationPaths Wallet_constructor\<rparr>"
  by (simp add: WalletFactory_create_def Wallet_create_def Let_def generateMnemonic_def
      mnemonicToSeedHex_def keypairFromSeed_def example_libs_def example_derivePath_def
      js_or_def paths_nonempty paths_distinct paths_distinct [symmetric]
      Wallet_constructor_def)

text \<open>Claim C1 on the example libraries, with a passphrase and the \<^verbatim>\<open>bip44\<close> path.\<close>

theorem create_restore_roundtrip_witness:
  "\<exists>w. WalletFactory_create example_libs example_rng (Some (js ''secret'')) (Some path_bip44)
          = Return w \<and>
       WalletFactory_restoreFromMnemonic example_libs example_mnemonic (Some (js ''secret''))
          (Some path_bip44) = Return w \<and>
       Wallet_keypair w = Some \<lparr>publicKey = [2], secretKey = [2, 2]\<rparr>"
  using create_restore_roundtrip [OF example_create _ example_mnemonic_normalized]
  by (simp add: example_create Wallet_keypair_def)

subsection \<open>Restoring from an invalid mnemonic\<close>

text \<open>
  What the method itself does with a phrase that fails validation once normalized: it
  records no hexadecimal seed, never calls \<^verbatim>\<open>mnemonicToSeedSync\<close>, and passes the
  missing seed on to \<^verbatim>\<open>derivePath\<close> without a check of its own.
\<close>

lemma restoreFromMnemonic_invalid_unguarded:
  assumes "\<not> bip39_validateMnemonic L (normalizeMnemonic m)"
  shows "w_seedHex (state_of (Wallet_restoreFromMnemonic L m pass derivedPath this)) = None"
    and "Wallet_restoreFromMnemonic L m pass derivedPath this =
         Wallet_restoreFromMnemonic
           (L\<lparr>bip39_mnemonicToSeedSync := f\<rparr>) m pass derivedPath this"
  using assms
  by (simp_all add: Wallet_restoreFromMnemonic_def mnemonicToSeedHex_def keypairFromSeed_def
      Let_def split: sum.splits)

text \<open>
  Claim C2: for a phrase that fails validation once normalized, and a \<^verbatim>\<open>derivePath\<close>
  that rejects a missing seed, \<^verbatim>\<open>restoreFromMnemonic\<close> throws; the instance is left
  without hexadecimal seed, and its seed and keypair are as they were before the call
  (absent, on a new wallet). No keypair is derived.
\<close>

theorem restoreFromMnemonic_invalid_rejects:
  assumes "\<not> bip39_validateMnemonic L (normalizeMnemonic m)"
    and "derivePath_rejects_null_seed L"
  shows "\<exists>e w. Wallet_restoreFromMnemonic L m pass derivedPath this = Throw e w \<and>
           w_seedHex w = None \<and> w_seed w = w_seed this \<and> w_keypair w = w_keypair this"
proof -
  let ?path = "js_or derivedPath (map_of (w_derivationPaths this) ''bip44Change'')"
  from assms(2) obtain e where "derivePath L ?path None = Inl e"
    unfolding derivePath_rejects_null_seed_def by blast
  with assms(1) show ?thesis
    by (simp add: Wallet_restoreFromMnemonic_def mnemonicToSeedHex_def Let_def)
qed

text \<open>Claim C2 on the example libraries, with a phrase they do not accept.\<close>

theorem restoreFromMnemonic_invalid_rejects_witness:
  "\<exists>e w. Wallet_restoreFromMnemonic example_libs (js ''abandon abandon'') None None
            Wallet_constructor = Throw e w \<and>
         w_seedHex w = None \<and> w_seed w = None \<and> w_keypair w = None"
proof -
  have "normalizeMnemonic (js ''abandon abandon'') \<noteq> example_mnemonic"
    unfolding example_mnemonic_def by code_simp
  then have a: "\<not> bip39_validateMnemonic example_libs (normalizeMnemonic (js ''abandon abandon''))"
    by (simp add: example_libs_def)
  have b: "derivePath_rejects_null_seed example_libs"
    by (simp add: derivePath_rejects_null_seed_def example_libs_def example_derivePath_def
        split: option.splits)
  from restoreFromMnemonic_invalid_rejects [OF a b, of None None Wallet_constructor]
  show ?thesis
    by (simp add: Wallet_constructor_def)
qed

subsection \<open>Different paths, different keypairs\<close>

lemma path_deprecated_invalid: "\<not> isValidPath path_deprecated"
  unfolding path_deprecated_def by code_simp

lemma path_indices_table:
  "path_indices path_bip44 = [44, 501, 0]" "path_indices path_bip44Change = [44, 501, 0, 0]"
  unfolding path_bip44_def path_bip44Change_def by code_simp+

text \<open>
  The two hardened paths of the table. With a \<^verbatim>\<open>derivePath\<close> that is injective in the
  path and a keypair that determines the seed it was built from, the wallets restored
  from one mnemonic and passphrase with \<^verbatim>\<open>m/44'/501'/0'\<close> and with
  \<^verbatim>\<open>m/44'/501'/0'/0'\<close> have different keypairs.
\<close>

lemma bip44_paths_distinct_keypairs:
  assumes inj_path: "derivePath_injective L"
    and inj_kp: "keypairFromSeed_injective L"
    and r1: "Wallet_restoreFromMnemonic L m pass (Some path_bip44) this = Return w_bip44"
    and r2: "Wallet_restoreFromMnemonic L m pass (Some path_bip44Change) this = Return w_change"
  shows "Wallet_keypair w_bip44 \<noteq> Wallet_keypair w_change"
proof -
  let ?s = "mnemonicToSeedHex L (normalizeMnemonic m) pass"
  from r1 obtain k1 kp1 where 1: "derivePath L (Some path_bip44) ?s = Inr k1"
      "keypairFromSeed L (key k1) = Inr kp1" "w_keypair w_bip44 = Some kp1"
    by (auto simp: Wallet_restoreFromMnemonic_def Let_def js_or_def paths_nonempty
        split: sum.splits)
  from r2 obtain k2 kp2 where 2: "derivePath L (Some path_bip44Change) ?s = Inr k2"
      "keypairFromSeed L (key k2) = Inr kp2" "w_keypair w_change = Some kp2"
    by (auto simp: Wallet_restoreFromMnemonic_def Let_def js_or_def path_bip44Change_nonempty
        split: sum.splits)
  have "path_indices path_bip44 \<noteq> path_indices path_bip44Change"
    by (simp add: path_indices_table)
  with inj_path 1(1) 2(1) have "key k1 \<noteq> key k2"
    unfolding derivePath_injective_def by blast
  with inj_kp 1(2) 2(2) have "kp1 \<noteq> kp2"
    unfolding keypairFromSeed_injective_def by blast
  with 1(3) 2(3) show ?thesis
    by (simp add: Wallet_keypair_def)
qed

text \<open>
  Claim C8 at the path \<^verbatim>\<open>m/501'/0'/0/0\<close>, the entry \<^verbatim>\<open>deprecated\<close> of the table: its
  last two segments are not hardened, so with a \<^verbatim>\<open>derivePath\<close> that derives hardened
  children only, \<^verbatim>\<open>restoreFromMnemonic\<close> throws for every mnemonic and passphrase. The
  path is recorded, no seed is derived and no keypair is built: there is no keypair to
  compare with those of the other two paths.
\<close>

theorem restoreFromMnemonic_deprecated_path_throws:
  assumes "derivePath_hardened_only L"
  shows "\<not> isValidPath path_deprecated \<and>
         (\<exists>e w. Wallet_restoreFromMnemonic L m pass (Some path_deprecated) this = Throw e w \<and>
            w_derivedPath w = Some path_deprecated \<and> w_seed w = w_seed this \<and>
            w_keypair w = w_keypair this) \<and>
         Wallet_keypair (state_of (WalletFactory_restoreFromMnemonic L m pass
            (Some path_deprecated))) = None"
proof -
  let ?s = "mnemonicToSeedHex L (normalizeMnemonic m) pass"
  from assms path_deprecated_invalid obtain e
    where e: "derivePath L (Some path_deprecated) ?s = Inl e"
    unfolding derivePath_hardened_only_def by blast
  have p: "js_or (Some path_deprecated) x = Some path_deprecated" for x
    by (simp add: js_or_def paths_nonempty)
  have "\<exists>e w. Wallet_restoreFromMnemonic L m pass (Some path_deprecated) this = Throw e w \<and>
      w_derivedPath w = Some path_deprecated \<and> w_seed w = w_seed this \<and>
      w_keypair w = w_keypair this" for this
    using e by (simp add: Wallet_restoreFromMnemonic_def Let_def p)
  moreover from this [of Wallet_constructor]
  have "Wallet_keypair (state_of (WalletFactory_restoreFromMnemonic L m pass
      (Some path_deprecated))) = None"
    by (auto simp: WalletFactory_restoreFromMnemonic_def Wallet_keypair_def Wallet_constructor_def)
  ultimately show ?thesis
    using path_deprecated_invalid by blast
qed

lemma example_hardened_only: "derivePath_hardened_only example_libs"
  using example_paths_valid
  by (auto simp: derivePath_hardened_only_def example_libs_def example_derivePath_def)

text \<open>Claim C8 at the path \<^verbatim>\<open>m/501'/0'/0/0\<close>, with the example libraries.\<close>

theorem restoreFromMnemonic_deprecated_path_throws_witness:
  "\<exists>e w. Wallet_restoreFromMnemonic example_libs example_mnemonic None (Some path_deprecated)
            Wallet_constructor = Throw e w \<and>
         w_derivedPath w = Some path_deprecated \<and> w_seed w = None \<and> w_keypair w = None"
  using restoreFromMnemonic_deprecated_path_throws
    [OF example_hardened_only, of example_mnemonic None Wallet_constructor]
  by (simp add: Wallet_constructor_def)

subsection \<open>The number of words of a generated mnemonic\<close>

lemma length_bytesToBinary: "length (bytesToBinary bs) = 8 * length bs"
  by (induction bs) (simp_all add: bytesToBinary_def)

lemma length_deriveChecksumBits:
  "length (deriveChecksumBits sha256 entropy) \<le> length entropy * 8 div 32"
  by (simp add: deriveChecksumBits_def)

lemma div_round_up_step:
  fixes k n :: nat
  assumes "0 < n" "0 < k"
  shows "(k + n - 1) div n = Suc ((k - n + n - 1) div n)"
proof (cases "n \<le> k")
  case True
  with assms have e: "k + n - 1 = (k - 1) + n" "k - n + n - 1 = k - 1"
    by simp_all
  have "((k - 1) + n) div n = Suc ((k - 1) div n)"
    using assms(1) by (subst div_add_self2) simp_all
  then show ?thesis
    by (simp only: e)
next
  case False
  with assms have a: "k - n + n - 1 = n - 1" and b: "n \<le> k + n - 1" and c: "k + n - 1 < n * 2"
    by simp_all
  from assms have "(n - 1) div n = 0"
    by simp
  moreover from b c have "(k + n - 1) div n = 1"
    by (intro div_nat_eqI) simp_all
  ultimately show ?thesis
    using a by simp
qed

lemma length_chunks: "0 < n \<Longrightarrow> length (chunks n xs) = (length xs + n - 1) div n"
proof (induction n xs rule: chunks.induct)
  case (1 n xs)
  show ?case
  proof (cases "xs = []")
    case True
    with "1.prems" show ?thesis
      by (simp add: chunks.simps)
  next
    case False
    with "1.prems" have ih: "length (chunks n (drop n xs)) = (length xs - n + n - 1) div n"
      using "1.IH" by simp
    from False have pos: "0 < length xs" by simp
    have "length (chunks n xs) = Suc ((length xs - n + n - 1) div n)"
      using False "1.prems" ih by (subst chunks.simps) simp
    also have "\<dots> = (length xs + n - 1) div n"
      using "1.prems" pos by (rule div_round_up_step [symmetric])
    finally show ?thesis .
  qed
qed

lemma chunks_length_le: "c \<in> set (chunks n xs) \<Longrightarrow> length c \<le> n"
proof (induction n xs rule: chunks.induct)
  case (1 n xs)
  show ?case
  proof (cases "n = 0 \<or> xs = []")
    case True
    with "1.prems" show ?thesis
      by (simp add: chunks.simps)
  next
    case False
    with "1.prems" have "c = take n xs \<or> c \<in> set (chunks n (drop n xs))"
      by (subst (asm) chunks.simps) simp
    with False "1.IH" show ?thesis
      by auto
  qed
qed

lemma foldl_binary_bound:
  "foldl (\<lambda>n b. 2 * n + (if b then 1 else 0)) (a :: nat) bits < (a + 1) * 2 ^ length bits"
proof (induction bits arbitrary: a)
  case Nil
  then show ?case by simp
next
  case (Cons b bits)
  have "foldl (\<lambda>n b. 2 * n + (if b then 1 else 0)) (2 * a + (if b then 1 else 0)) bits
        < (2 * a + (if b then 1 else 0) + 1) * 2 ^ length bits"
    by (rule Cons.IH)
  also have "\<dots> \<le> (2 * a + 2) * 2 ^ length bits"
    by (rule mult_le_mono1) simp
  also have "\<dots> = (a + 1) * 2 ^ length (b # bits)"
    by simp
  finally show ?case
    by simp
qed

lemma binaryToByte_bound: "binaryToByte bits < 2 ^ length bits"
  using foldl_binary_bound [of 0 bits] by (simp add: binaryToByte_def)

lemma binaryToByte_chunk: "c \<in> set (chunks 11 xs) \<Longrightarrow> binaryToByte c < 2048"
proof -
  assume "c \<in> set (chunks 11 xs)"
  then have "length c \<le> 11"
    by (rule chunks_length_le)
  then have "(2::nat) ^ length c \<le> 2 ^ 11"
    by (rule power_increasing) simp
  with binaryToByte_bound [of c] show ?thesis
    by simp
qed

lemma entropyToMnemonic_words:
  fixes sha256 :: "bytes \<Rightarrow> bytes"
  assumes wl: "wordlist_ok wordlist" and ent: "length entropy = 32"
  defines "ws \<equiv> map (\<lambda>binary. wordAt wordlist (binaryToByte binary))
          (chunks 11 (bytesToBinary entropy @ deriveChecksumBits sha256 entropy))"
  shows "length ws = 24" and "normal_words ws"
proof -
  let ?bits = "bytesToBinary entropy @ deriveChecksumBits sha256 entropy"
  have "length (deriveChecksumBits sha256 entropy) \<le> 8"
    using length_deriveChecksumBits [of sha256 entropy] ent by simp
  then have "256 \<le> length ?bits" "length ?bits \<le> 264"
    using ent by (simp_all add: length_bytesToBinary)
  then have "(length ?bits + 11 - 1) div 11 = 24"
    by arith
  then show len: "length ws = 24"
    by (simp add: ws_def length_chunks)
  have "w \<noteq> [] \<and> list_all (\<lambda>c. \<not> isWhiteSpace c) w" if "w \<in> set ws" for w
  proof -
    from that obtain c where c: "c \<in> set (chunks 11 ?bits)" "w = wordAt wordlist (binaryToByte c)"
      by (auto simp: ws_def)
    from c(1) have "binaryToByte c < 2048"
      by (rule binaryToByte_chunk)
    with wl c(2) have "w \<in> set wordlist"
      by (simp add: wordAt_def wordlist_ok_def)
    with wl show ?thesis
      by (simp add: wordlist_ok_def list_all_iff)
  qed
  with len show "normal_words ws"
    by (auto simp: normal_words_def list_all_iff)
qed

text \<open>
  A phrase of the standard encoding is in normalized form: normalizing it changes
  nothing.
\<close>

lemma standard_generateMnemonic_normalized:
  assumes "wordlist_ok wordlist" and "length (rng 32) = 32"
    and "standard_generateMnemonic wordlist sha256 256 rng = Inr m"
  shows "normalizeMnemonic m = m"
proof -
  let ?ws = "map (\<lambda>binary. wordAt wordlist (binaryToByte binary))
          (chunks 11 (bytesToBinary (rng 32) @ deriveChecksumBits sha256 (rng 32)))"
  from assms(3) have m: "m = join [0x20] ?ws"
    by (simp add: standard_generateMnemonic_def entropyToMnemonic_def)
  from entropyToMnemonic_words [OF assms(1,2)] have "normal_words ?ws"
    by blast
  then show ?thesis
    unfolding m by (rule normalizeMnemonic_join)
qed

text \<open>
  Claim C9: with the standard encoding for \<^verbatim>\<open>bip39.generateMnemonic\<close>, a word list of
  2048 non-empty words without white space and a random source that delivers the 32
  bytes asked for, the mnemonic of a wallet returned by \<^verbatim>\<open>create\<close> splits at white
  space into exactly 24 non-empty words.
\<close>

theorem create_mnemonic_24_words:
  assumes "bip39_generateMnemonic L = standard_generateMnemonic wordlist sha256"
    and "wordlist_ok wordlist"
    and "length (rng 32) = 32"
    and "Wallet_create L rng pass derivedPath this = Return w"
  shows "\<exists>m. Wallet_mnemonic w = Some m \<and> length (split_whitespace m) = 24 \<and>
           normal_words (split_whitespace m)"
proof -
  let ?ws = "map (\<lambda>binary. wordAt wordlist (binaryToByte binary))
          (chunks 11 (bytesToBinary (rng 32) @ deriveChecksumBits sha256 (rng 32)))"
  have g: "generateMnemonic L rng = Inr (join [0x20] ?ws)"
    by (simp add: generateMnemonic_def assms(1) standard_generateMnemonic_def
        entropyToMnemonic_def)
  with assms(4) have m: "Wallet_mnemonic w = Some (join [0x20] ?ws)"
    by (auto simp: Wallet_create_def Wallet_mnemonic_def Let_def split: sum.splits)
  from entropyToMnemonic_words [OF assms(2,3)] have ws: "length ?ws = 24" "normal_words ?ws"
    by blast+
  from ws(2) have "split_whitespace (join [0x20] ?ws) = ?ws"
    by (rule split_join_normal_words)
  with m ws show ?thesis
    by simp
qed

lemma example_wordlist_ok: "wordlist_ok example_wordlist"
  by (simp add: wordlist_ok_def example_wordlist_def list_all_iff js_def isWhiteSpace_def)

text \<open>Claim C9 on the example libraries with the standard encoding.\<close>

theorem create_mnemonic_24_words_witness:
  "\<exists>w m. WalletFactory_create example_libs_standard example_rng None None = Return w \<and>
     Wallet_mnemonic w = Some m \<and> length (split_whitespace m) = 24"
proof -
  have a: "bip39_generateMnemonic example_libs_standard =
           standard_generateMnemonic example_wordlist (\<lambda>bs. [0])"
    by (simp add: example_libs_standard_def)
  have b: "length (example_rng 32) = 32"
    by (simp add: example_rng_def)
  let ?ws = "map (\<lambda>binary. wordAt example_wordlist (binaryToByte binary))
          (chunks 11 (bytesToBinary (example_rng 32) @ deriveChecksumBits (\<lambda>bs. [0]) (example_rng 32)))"
  have ws: "length ?ws = 24" "normal_words ?ws"
    using entropyToMnemonic_words [OF example_wordlist_ok b] by blast+
  then have v: "length (split_whitespace (join [0x20] ?ws)) = 24"
    by (simp add: split_join_normal_words)
  obtain w where w: "Wallet_create example_libs_standard example_rng None None Wallet_constructor
     = Return w"
    using v
    by (simp add: Wallet_create_def Let_def generateMnemonic_def a standard_generateMnemonic_def
        entropyToMnemonic_def mnemonicToSeedHex_def keypairFromSeed_def
        example_libs_standard_def example_libs_def example_derivePath_def js_or_def
        Wallet_constructor_def path_bip44Change_nonempty paths_distinct [symmetric])
  from create_mnemonic_24_words [OF a example_wordlist_ok b w] w show ?thesis
    by (auto simp: WalletFactory_create_def)
qed

subsection \<open>What changes a wallet\<close>

lemma Wallet_create_overwrites:
  assumes "w_derivationPaths this' = w_derivationPaths this"
    and "Wallet_create L rng pass d this = Return w"
  shows "Wallet_create L rng pass d this' = Return w"
  using assms by (auto simp: Wallet_create_def Let_def split: sum.splits)

lemma Wallet_restoreFromMnemonic_overwrites:
  assumes "w_derivationPaths this' = w_derivationPaths this"
    and "Wallet_restoreFromMnemonic L m pass d this = Return w"
  shows "Wallet_restoreFromMnemonic L m pass d this' = Return w"
  using assms by (auto simp: Wallet_restoreFromMnemonic_def Let_def split: sum.splits)

lemma Wallet_restoreFromSeed_overwrites:
  assumes "w_derivationPaths this' = w_derivationPaths this"
    and "Wallet_restoreFromSeed L seed this = Return w"
  shows "Wallet_restoreFromSeed L seed this' = Return w"
  using assms by (auto simp: Wallet_restoreFromSeed_def Let_def split: sum.splits)

lemma Wallet_restoreFromPrivateKey_overwrites:
  assumes "w_derivationPaths this' = w_derivationPaths this"
    and "Wallet_restoreFromPrivateKey L k this = Return w"
  shows "Wallet_restoreFromPrivateKey L k this' = Return w"
  using assms by (auto simp: Wallet_restoreFromPrivateKey_def Let_def split: sum.splits)

text \<open>
  Claim C10, as the code has it. A call that is not one of the four construction
  methods (a getter or a helper method) leaves every field of the instance as it was.
  The construction methods stay callable on an instance and overwrite it in place: one
  that returns leaves the instance as the same call leaves any other instance with
  the same table of paths, a new one included, so nothing of the derived path, the
  mnemonic, the seeds and the keypair it had is kept. Whether they return or throw,
  \<^verbatim>\<open>restoreFromSeed\<close> has set the seed to its argument and cleared the mnemonic and
  the derived path, and \<^verbatim>\<open>restoreFromPrivateKey\<close> has cleared all three.
\<close>

theorem only_construction_changes_wallet:
  "(\<not> is_construction c \<longrightarrow> invoke L c this = this) \<and>
   (w_derivationPaths this' = w_derivationPaths this \<longrightarrow>
      (\<forall>w. Wallet_create L rng pass d this = Return w \<longrightarrow>
           Wallet_create L rng pass d this' = Return w) \<and>
      (\<forall>w. Wallet_restoreFromMnemonic L m pass d this = Return w \<longrightarrow>
           Wallet_restoreFromMnemonic L m pass d this' = Return w) \<and>
      (\<forall>w. Wallet_restoreFromSeed L seed this = Return w \<longrightarrow>
           Wallet_restoreFromSeed L seed this' = Return w) \<and>
      (\<forall>w. Wallet_restoreFromPrivateKey L k this = Return w \<longrightarrow>
           Wallet_restoreFromPrivateKey L k this' = Return w)) \<and>
   Wallet_seed (invoke L (Call_restoreFromSeed seed) this) = Some seed \<and>
   Wallet_mnemonic (invoke L (Call_restoreFromSeed seed) this) = None \<and>
   w_derivedPath (invoke L (Call_restoreFromSeed seed) this) = None \<and>
   Wallet_seed (invoke L (Call_restoreFromPrivateKey k) this) = None \<and>
   Wallet_mnemonic (invoke L (Call_restoreFromPrivateKey k) this) = None \<and>
   w_derivedPath (invoke L (Call_restoreFromPrivateKey k) this) = None"
proof -
  have 1: "\<not> is_construction c \<longrightarrow> invoke L c this = this"
    by (cases c) simp_all
  have 2: "Wallet_seed (invoke L (Call_restoreFromSeed seed) this) = Some seed \<and>
      Wallet_mnemonic (invoke L (Call_restoreFromSeed seed) this) = None \<and>
      w_derivedPath (invoke L (Call_restoreFromSeed seed) this) = None"
    by (simp add: Wallet_restoreFromSeed_def Wallet_seed_def Wallet_mnemonic_def Let_def
        split: sum.splits)
  have 3: "Wallet_seed (invoke L (Call_restoreFromPrivateKey k) this) = None \<and>
      Wallet_mnemonic (invoke L (Call_restoreFromPrivateKey k) this) = None \<and>
      w_derivedPath (invoke L (Call_restoreFromPrivateKey k) this) = None"
    by (simp add: Wallet_restoreFromPrivateKey_def Wallet_seed_def Wallet_mnemonic_def Let_def
        split: sum.splits)
  from 1 2 3 show ?thesis
    using Wallet_create_overwrites [of this' this L rng pass d]
      Wallet_restoreFromMnemonic_overwrites [of this' this L m pass d]
      Wallet_restoreFromSeed_overwrites [of this' this L seed]
      Wallet_restoreFromPrivateKey_overwrites [of this' this L k]
    by blast
qed

lemma example_restoreFromSeed:
  "Wallet_restoreFromSeed example_libs seed this =
     Return (this\<lparr>w_derivedPath := None, w_mnemonic := None, w_seed := Some seed,
               w_seedHex := Some (toHex seed),
               w_keypair := Some \<lparr>publicKey = drop (length (seed @ rev seed) div 2)
                                    (seed @ rev seed),
                                  secretKey = seed @ rev seed\<rparr>\<rparr>)"
  by (simp add: Wallet_restoreFromSeed_def example_keypairFromSeed)

text \<open>
  Claim C10, as the code has it, on a wallet restored from a seed of 32 bytes: the
  getter \<^verbatim>\<open>json\<close> leaves it as it is, and \<^verbatim>\<open>restoreFromSeed\<close> called on it with
  another seed leaves it as the factory's wallet for that seed.
\<close>

theorem only_construction_changes_wallet_witness:
  "invoke example_libs Get_json
     (state_of (WalletFactory_restoreFromSeed example_libs (replicate 32 1))) =
   state_of (WalletFactory_restoreFromSeed example_libs (replicate 32 1)) \<and>
   Wallet_restoreFromSeed example_libs (replicate 32 2)
     (state_of (WalletFactory_restoreFromSeed example_libs (replicate 32 1))) =
   WalletFactory_restoreFromSeed example_libs (replicate 32 2)"
proof -
  let ?w1 = "state_of (WalletFactory_restoreFromSeed example_libs (replicate 32 1))"
  have t: "w_derivationPaths ?w1 = w_derivationPaths Wallet_constructor"
    by (simp add: WalletFactory_restoreFromSeed_def Wallet_restoreFromSeed_derivationPaths)
  obtain w where w: "Wallet_restoreFromSeed example_libs (replicate 32 2) Wallet_constructor
      = Return w"
    by (simp add: example_restoreFromSeed)
  from only_construction_changes_wallet
    [of Get_json example_libs Wallet_constructor ?w1 _ _ _ _ "replicate 32 2"] t w
  have "Wallet_restoreFromSeed example_libs (replicate 32 2) ?w1 = Return w"
    by blast
  moreover from only_construction_changes_wallet [of Get_json example_libs ?w1]
  have "invoke example_libs Get_json ?w1 = ?w1"
    by simp
  ultimately show ?thesis
    using w by (simp add: WalletFactory_restoreFromSeed_def)
qed

text \<open>
  Claim C10 as stated fails: the construction methods are methods of the instance and
  assign to its fields. On a wallet restored from a seed of 32 bytes,
  \<^verbatim>\<open>restoreFromSeed\<close> with another seed of 32 bytes returns, and the wallet has that
  other seed and another keypair.
\<close>

theorem construction_on_instance_changes_keypair:
  "WalletFactory_restoreFromSeed example_libs (replicate 32 1) =
     Return (state_of (WalletFactory_restoreFromSeed example_libs (replicate 32 1))) \<and>
   Wallet_seed (state_of (WalletFactory_restoreFromSeed example_libs (replicate 32 1))) =
     Some (replicate 32 1) \<and>
   Wallet_seed (invoke example_libs (Call_restoreFromSeed (replicate 32 2))
     (state_of (WalletFactory_restoreFromSeed example_libs (replicate 32 1)))) =
     Some (replicate 32 2) \<and>
   replicate 32 (2 :: 8 word) \<noteq> replicate 32 1 \<and>
   Wallet_keypair (invoke example_libs (Call_restoreFromSeed (replicate 32 2))
     (state_of (WalletFactory_restoreFromSeed example_libs (replicate 32 1)))) \<noteq>
   Wallet_keypair (state_of (WalletFactory_restoreFromSeed example_libs (replicate 32 1)))"
proof -
  have ne: "replicate 32 (2 :: 8 word) \<noteq> replicate 32 1"
    by code_simp
  then have "replicate 32 (2 :: 8 word) @ rev (replicate 32 2) \<noteq>
      replicate 32 1 @ rev (replicate 32 1)"
    by simp
  with ne show ?thesis
    by (simp add: WalletFactory_restoreFromSeed_def example_restoreFromSeed
        Wallet_seed_def Wallet_keypair_def)
qed

subsection \<open>The exports of the package\<close>

text \<open>
  What the modules would export if wallet.js loaded, its \<^verbatim>\<open>export\<close> declaration
  compiled to a named export: \<^verbatim>\<open>require("./wallet")\<close> gives the \<^verbatim>\<open>WalletFactory\<close>
  instance, which has no property \<^verbatim>\<open>Wallet\<close> or \<^verbatim>\<open>walletFactory\<close>, so the top-level
  module exports \<^verbatim>\<open>undefined\<close> under both names and the \<^verbatim>\<open>Wallet\<close> that spl.js
  destructures is \<^verbatim>\<open>undefined\<close> as well.
\<close>

lemma compiled_package_exports_undefined:
  "wallet_js Compiled = Inr new_WalletFactory \<and>
   exported (index_js Compiled) ''Wallet'' = Inr Undefined \<and>
   exported (index_js Compiled) ''walletFactory'' = Inr Undefined \<and>
   spl_js_Wallet Compiled = Inr Undefined"
  by (simp add: wallet_js_def spl_js_def spl_js_Wallet_def index_js_def load_def exported_def
      assign_module_exports_def new_WalletFactory_def object_literal_def Object_prototype_def)

text \<open>
  Claim C3 on the files as they are written: the top-level module binds \<^verbatim>\<open>Wallet\<close>
  and \<^verbatim>\<open>walletFactory\<close> to the properties of those names of what
  \<^verbatim>\<open>require("./wallet")\<close> gives, but wallet.js does not load. Its \<^verbatim>\<open>export\<close>
  declaration is a syntax error in a module that is loaded by \<^verbatim>\<open>require\<close>, so the
  top-level module and spl.js throw in turn, and a consumer of the package gets an
  exception in place of the two values the claim has exported as \<^verbatim>\<open>undefined\<close>.
\<close>

theorem package_fails_to_load:
  "wallet_js Node_require = Inl (SyntaxError ''Unexpected token export'') \<and>
   index_js Node_require = Inl (SyntaxError ''Unexpected token export'') \<and>
   exported (index_js Node_require) ''Wallet'' = Inl (SyntaxError ''Unexpected token export'') \<and>
   exported (index_js Node_require) ''walletFactory'' =
     Inl (SyntaxError ''Unexpected token export'') \<and>
   spl_js_Wallet Node_require = Inl (SyntaxError ''Unexpected token export'')"
  by (simp add: wallet_js_def spl_js_Wallet_def index_js_def load_def exported_def)


end
